theory Spec2Isabelle
  imports Complex_Main "HOL-Library.AList"
begin

section \<open>Python values\<close>

text \<open>
  The request bodies, the stored configurations and the response payloads of
  \<^verbatim>\<open>Backend/app/controller/processor/services.py\<close> are JSON documents held as Python
  values. \<open>JObj\<close> is a \<^verbatim>\<open>dict\<close> with string keys (looked up with \<open>map_of\<close>),
  \<open>JNull\<close> is \<^verbatim>\<open>None\<close>. Numbers are the integers; floating point numbers are not
  modelled.
\<close>

datatype json =
    JNull
  | JBool bool
  | JNum int
  | JStr string
  | JArr "json list"
  | JObj "(string \<times> json) list"

text \<open>Python's truth value, as tested by \<^verbatim>\<open>if x\<close>, \<^verbatim>\<open>not x\<close>, \<^verbatim>\<open>x or y\<close> and \<^verbatim>\<open>all(...)\<close>.\<close>

fun truthy :: "json \<Rightarrow> bool" where
  "truthy JNull = False"
| "truthy (JBool b) = b"
| "truthy (JNum n) = (n \<noteq> 0)"
| "truthy (JStr s) = (s \<noteq> [])"
| "truthy (JArr xs) = (xs \<noteq> [])"
| "truthy (JObj kvs) = (kvs \<noteq> [])"

text \<open>\<^verbatim>\<open>a or b\<close>.\<close>

definition py_or :: "json \<Rightarrow> json \<Rightarrow> json" where
  "py_or a b = (if truthy a then a else b)"

datatype error = AttributeError | TypeError | KeyError | BadRequest | LibraryError

text \<open>
  \<^verbatim>\<open>d.get(k, default)\<close>: only a \<^verbatim>\<open>dict\<close> has the method; on any other value the
  attribute lookup raises \<^verbatim>\<open>AttributeError\<close>.
\<close>

fun py_get :: "json \<Rightarrow> string \<Rightarrow> json \<Rightarrow> error + json" where
  "py_get (JObj kvs) k d = Inr (case map_of kvs k of None \<Rightarrow> d | Some v \<Rightarrow> v)"
| "py_get _ k d = Inl AttributeError"

text \<open>\<^verbatim>\<open>k in d\<close> for a \<^verbatim>\<open>dict\<close> \<open>d\<close>.\<close>

fun py_in :: "string \<Rightarrow> (string \<times> json) list \<Rightarrow> bool" where
  "py_in k kvs = (map_of kvs k \<noteq> None)"

text \<open>
  A value used as a key of the registries \<^verbatim>\<open>user_configs\<close> and \<^verbatim>\<open>user_agents\<close>.
  Lists and dicts are unhashable (\<^verbatim>\<open>TypeError\<close>); \<^verbatim>\<open>True\<close> and \<^verbatim>\<open>1\<close> (and
  \<^verbatim>\<open>False\<close> and \<^verbatim>\<open>0\<close>) are the same key.
\<close>

datatype key = KNone | KInt int | KStr string

fun dict_key :: "json \<Rightarrow> error + key" where
  "dict_key JNull = Inr KNone"
| "dict_key (JBool b) = Inr (KInt (if b then 1 else 0))"
| "dict_key (JNum n) = Inr (KInt n)"
| "dict_key (JStr s) = Inr (KStr s)"
| "dict_key (JArr xs) = Inl TypeError"
| "dict_key (JObj kvs) = Inl TypeError"

text \<open>A string or \<^verbatim>\<open>None\<close> returned by \<^verbatim>\<open>request.args.get\<close> or \<^verbatim>\<open>request.headers.get\<close>.\<close>

fun opt_str :: "string option \<Rightarrow> json" where
  "opt_str None = JNull"
| "opt_str (Some s) = JStr s"

section \<open>Log records, threads and the process state\<close>

datatype level = INFO | WARNING | ERROR

text \<open>
  A log record is its level, the text of the f-string with \<open>{}\<close> for each
  interpolated value, and the interpolated values. \<open>Sleep\<close> records a
  \<^verbatim>\<open>asyncio.sleep\<close> of a worker.
\<close>

datatype event = Log level string "json list" | Sleep nat

text \<open>
  A \<^verbatim>\<open>threading.Thread\<close>: its name is \<^verbatim>\<open>Agent-{node_id}\<close>, kept as the node
  identifier; \<open>alive\<close> is what \<^verbatim>\<open>is_alive()\<close> answers. Threads are addressed
  by their index in the table \<open>threads\<close> of the process.
\<close>

record thread =
  thread_name :: json
  alive :: bool

text \<open>\<^verbatim>\<open>class UserAgentManager\<close>.\<close>

record manager =
  node_id :: json
  config :: json
  agent_thread :: "nat option"
  shutdown_event :: bool

definition UserAgentManager :: "json \<Rightarrow> json \<Rightarrow> manager" where
  "UserAgentManager n c =
     \<lparr>node_id = n, config = c, agent_thread = None, shutdown_event = False\<rparr>"

text \<open>
  The module globals \<^verbatim>\<open>user_configs\<close> and \<^verbatim>\<open>user_agents\<close> (dicts, as
  association lists in insertion order, read with \<open>map_of\<close>), the threads of
  the process, the records written to the logger, and a clock that advances
  while a request blocks (seconds).
\<close>

record world =
  user_configs :: "(key \<times> json) list"
  user_agents :: "(key \<times> manager) list"
  threads :: "thread list"
  logs :: "event list"
  clock :: real

definition empty_world :: world where
  "empty_world =
     \<lparr>user_configs = [], user_agents = [], threads = [], logs = [], clock = 0\<rparr>"

definition logger :: "level \<Rightarrow> string \<Rightarrow> json list \<Rightarrow> world \<Rightarrow> world" where
  "logger l s vs w = w\<lparr>logs := logs w @ [Log l s vs]\<rparr>"

text \<open>\<^verbatim>\<open>self.agent_thread.is_alive()\<close>.\<close>

definition is_alive :: "world \<Rightarrow> nat \<Rightarrow> bool" where
  "is_alive w t = (t < length (threads w) \<and> alive (threads w ! t))"

text \<open>A worker thread runs to its end: the only way a thread stops being alive.\<close>

definition thread_exit :: "nat \<Rightarrow> world \<Rightarrow> world" where
  "thread_exit t w =
     (if t < length (threads w)
      then w\<lparr>threads := (threads w)[t := (threads w ! t)\<lparr>alive := False\<rparr>]\<rparr>
      else w)"

text \<open>
  \<^verbatim>\<open>Thread.join(timeout=tmo)\<close> on a thread that is alive: the caller is blocked
  until the thread ends or \<open>tmo\<close> seconds have passed. The remaining lifetime of
  the thread is the environment's: \<open>Some d\<close> when it ends after \<open>d\<close> seconds,
  \<open>None\<close> when it never ends. \<open>join_blocked\<close> is the time the caller is blocked,
  \<open>join_ended\<close> whether the thread has ended when the call returns.
\<close>

fun join_blocked :: "real \<Rightarrow> real option \<Rightarrow> real" where
  "join_blocked tmo None = tmo"
| "join_blocked tmo (Some d) = min tmo d"

fun join_ended :: "real \<Rightarrow> real option \<Rightarrow> bool" where
  "join_ended tmo None = False"
| "join_ended tmo (Some d) = (d \<le> tmo)"

section \<open>UserAgentManager\<close>

text \<open>
  \<^verbatim>\<open>start_agent\<close>: a new thread is created and started unless the manager's
  thread exists and answers \<^verbatim>\<open>is_alive()\<close>.
\<close>

definition spawn :: "world \<Rightarrow> manager \<Rightarrow> world \<times> manager" where
  "spawn w m =
     (logger INFO ''LiveKit agent started for node {}'' [node_id m]
        (w\<lparr>threads := threads w @ [\<lparr>thread_name = node_id m, alive = True\<rparr>]\<rparr>),
      m\<lparr>agent_thread := Some (length (threads w))\<rparr>)"

definition start_agent :: "world \<Rightarrow> manager \<Rightarrow> world \<times> manager" where
  "start_agent w m =
     (case agent_thread m of
        None \<Rightarrow> spawn w m
      | Some t \<Rightarrow> if \<not> is_alive w t then spawn w m else (w, m))"

text \<open>
  \<^verbatim>\<open>all(config.get("liveKit", {}).get(key) for key in required_livekit)\<close>: the
  keys are read in order, the first falsy value ends the test, and a config or
  a \<^verbatim>\<open>liveKit\<close> entry that is no \<^verbatim>\<open>dict\<close> raises.
\<close>

definition required_livekit :: "string list" where
  "required_livekit = [''apiKey'', ''secret'', ''serverUrl'']"

fun all_livekit :: "json \<Rightarrow> string list \<Rightarrow> error + bool" where
  "all_livekit cfg [] = Inr True"
| "all_livekit cfg (key # keys) =
     (case py_get cfg ''liveKit'' (JObj []) of
        Inl e \<Rightarrow> Inl e
      | Inr lk \<Rightarrow>
         (case py_get lk key JNull of
            Inl e \<Rightarrow> Inl e
          | Inr v \<Rightarrow> if truthy v then all_livekit cfg keys else Inr False))"

text \<open>
  \<^verbatim>\<open>UserAgentManager._validate_config\<close>: the answer and the record it logs.
  This is the media-credential invariant of a config as the code tests it.
\<close>

definition validate_config :: "json \<Rightarrow> json \<Rightarrow> error + bool \<times> event list" where
  "validate_config node cfg =
     (case all_livekit cfg required_livekit of
        Inl e \<Rightarrow> Inl e
      | Inr ok \<Rightarrow>
          if \<not> ok
          then Inr (False, [Log ERROR ''LiveKit credentials missing in config for node {}'' [node]])
          else Inr (True, []))"

definition media_credentials_ok :: "json \<Rightarrow> bool" where
  "media_credentials_ok cfg = (all_livekit cfg required_livekit = Inr True)"

text \<open>
  \<^verbatim>\<open>stop_agent\<close>: \<^verbatim>\<open>shutdown_event.set()\<close>, \<^verbatim>\<open>join(timeout=5)\<close>, and a warning
  when the thread is still alive afterwards. \<open>life\<close> is the remaining lifetime
  of the thread once the event is set. Nothing but the thread itself ends it.
\<close>

definition stop_agent :: "real option \<Rightarrow> world \<Rightarrow> manager \<Rightarrow> world \<times> manager" where
  "stop_agent life w m =
     (case agent_thread m of
        None \<Rightarrow> (w, m)
      | Some t \<Rightarrow>
          if is_alive w t then
            let w1 = logger INFO ''Stopping LiveKit agent for node {}'' [node_id m] w;
                m1 = m\<lparr>shutdown_event := True\<rparr>;
                w2 = (if join_ended 5 life then thread_exit t w1 else w1);
                w3 = w2\<lparr>clock := clock w2 + join_blocked 5 life\<rparr>
            in if is_alive w3 t
               then (logger WARNING ''Agent thread for {} did not stop gracefully'' [node_id m] w3, m1)
               else (w3, m1)
          else (w, m))"


section \<open>Requests and responses\<close>

text \<open>
  What the service reads of a Flask request: the result of \<^verbatim>\<open>get_json()\<close>
  (\<open>None\<close> when it raises), the query parameters, and the header
  \<^verbatim>\<open>X-Node-ID\<close>.
\<close>

record request =
  get_json :: "json option"
  args :: "(string \<times> string) list"
  x_node_id :: "string option"

text \<open>The error detail of a failure: a fixed text, or \<^verbatim>\<open>str(e)\<close> of the exception caught.\<close>

datatype detail = Text string "json list" | Str error

text \<open>
  \<^verbatim>\<open>utils/middleware/response_format.py\<close>: the JSON envelope and the HTTP status
  code returned with it.
\<close>

record response =
  status :: string
  message :: string
  data :: "json option"
  err :: "detail option"
  http :: nat

definition resp_success :: "string \<Rightarrow> json \<Rightarrow> response" where
  "resp_success msg d =
     \<lparr>status = ''success'', message = msg, data = Some d, err = None, http = 200\<rparr>"

definition resp_failure :: "string \<Rightarrow> detail \<Rightarrow> response" where
  "resp_failure msg e =
     \<lparr>status = ''failure'', message = msg, data = None, err = Some e, http = 400\<rparr>"


text \<open>
  \<^verbatim>\<open>request.args.get('nodeId') or request.headers.get('X-Node-ID')\<close>: \<^verbatim>\<open>None\<close>
  or a string, the empty string when the header is present and empty.
\<close>

definition request_node_id :: "request \<Rightarrow> string option" where
  "request_node_id r =
     (case map_of (args r) ''nodeId'' of
        None \<Rightarrow> x_node_id r
      | Some s \<Rightarrow> if s \<noteq> [] then Some s else x_node_id r)"

section \<open>Service\<close>

definition required_top_level :: "string list" where
  "required_top_level = [''liveKit'', ''stt'', ''llm'', ''tts'']"

text \<open>
  The part of \<^verbatim>\<open>set_config\<close> after the checks: store the config, stop the
  node's manager if there is one, create a manager and start it. The manager
  stopped is replaced in \<^verbatim>\<open>user_agents\<close> right away, so its new field values
  are dropped.
\<close>

definition store_and_start :: "real option \<Rightarrow> world \<Rightarrow> json \<Rightarrow> key \<Rightarrow> json \<Rightarrow> world" where
  "store_and_start life w node k d =
     (let w1 = w\<lparr>user_configs := AList.update k d (user_configs w)\<rparr>;
          w2 = (case map_of (user_agents w1) k of
                  None \<Rightarrow> w1
                | Some m \<Rightarrow> fst (stop_agent life w1 m));
          (w3, am) = start_agent w2 (UserAgentManager node d)
      in w3\<lparr>user_agents := AList.update k am (user_agents w3)\<rparr>)"

text \<open>
  \<^verbatim>\<open>Service.set_config\<close>. Every exception raised inside is caught, logged and
  answered with a failure. \<open>life\<close> is the remaining lifetime of the node's
  previous worker thread once it is told to stop. The body is a \<^verbatim>\<open>dict\<close> once
  \<^verbatim>\<open>data.get\<close> has returned, so the last branch is never taken.
\<close>

definition set_config_raised :: "error \<Rightarrow> world \<Rightarrow> response \<times> world" where
  "set_config_raised e w =
     (resp_failure ''Failed to set config'' (Str e),
      logger ERROR ''Error setting config'' [] w)"

text \<open>\<^verbatim>\<open>data.get('nodeId') or request.headers.get('X-Node-ID')\<close>.\<close>

definition body_node_id :: "json \<Rightarrow> request \<Rightarrow> error + json" where
  "body_node_id d r =
     (case py_get d ''nodeId'' JNull of
        Inl e \<Rightarrow> Inl e
      | Inr v \<Rightarrow> Inr (py_or v (opt_str (x_node_id r))))"

definition set_config :: "real option \<Rightarrow> world \<Rightarrow> request \<Rightarrow> response \<times> world" where
  "set_config life w r =
     (case get_json r of
        None \<Rightarrow> set_config_raised BadRequest w
      | Some d \<Rightarrow>
         (case body_node_id d r of
            Inl e \<Rightarrow> set_config_raised e w
          | Inr node \<Rightarrow>
              if \<not> truthy node then
                (resp_failure ''nodeId is required''
                   (Text ''Please provide nodeId in request body or X-Node-ID header'' []), w)
              else
                (let w0 = logger INFO ''Received Configuration Data for node {}'' [node] w in
                 case d of
                   JObj kvs \<Rightarrow>
                     if \<not> list_all (\<lambda>key. py_in key kvs) required_top_level then
                       (resp_failure ''Invalid configuration''
                          (Text ''Missing required top-level keys'' []), w0)
                     else
                       (case dict_key node of
                          Inl e \<Rightarrow> set_config_raised e w0
                        | Inr k \<Rightarrow>
                            (resp_success ''Config stored and agent started''
                               (JObj [(''status'', JStr ''ok''), (''nodeId'', node)]),
                             store_and_start life w0 node k d))
                 | _ \<Rightarrow> set_config_raised AttributeError w0)))"

text \<open>\<^verbatim>\<open>Service.get_config\<close>.\<close>

definition get_config :: "world \<Rightarrow> request \<Rightarrow> response" where
  "get_config w r =
     (case request_node_id r of
        None \<Rightarrow>
          resp_failure ''nodeId is required''
            (Text ''Please provide nodeId parameter or X-Node-ID header'' [])
      | Some n \<Rightarrow>
          if n = [] then
            resp_failure ''nodeId is required''
              (Text ''Please provide nodeId parameter or X-Node-ID header'' [])
          else
            (let cfg = (case map_of (user_configs w) (KStr n) of None \<Rightarrow> JObj [] | Some c \<Rightarrow> c) in
             resp_success ''Configuration retrieved successfully''
               (JObj [(''config'', cfg), (''nodeId'', JStr n)])))"

text \<open>
  \<^verbatim>\<open>agent_manager and agent_manager.agent_thread and agent_manager.agent_thread.is_alive()\<close>:
  Python's \<^verbatim>\<open>and\<close> returns its first falsy operand, so the value is
  \<^verbatim>\<open>None\<close> when there is no manager or no thread.
\<close>

definition agent_running :: "world \<Rightarrow> manager option \<Rightarrow> json" where
  "agent_running w am =
     (case am of
        None \<Rightarrow> JNull
      | Some m \<Rightarrow> (case agent_thread m of None \<Rightarrow> JNull | Some t \<Rightarrow> JBool (is_alive w t)))"

text \<open>
  \<^verbatim>\<open>Service.health_check\<close>: the per-node form when a node identifier is given,
  else the global form.
\<close>

definition node_health :: "world \<Rightarrow> string \<Rightarrow> json" where
  "node_health w n =
     (let config_available = JBool (map_of (user_configs w) (KStr n) \<noteq> None);
          running = agent_running w (map_of (user_agents w) (KStr n)) in
      JObj [(''status'', JStr ''ok''),
            (''nodeId'', JStr n),
            (''services'', JObj [(''config'', config_available),
                                 (''token'', JBool True),
                                 (''agent'', running)]),
            (''config_available'', config_available)])"

definition overall_health :: "world \<Rightarrow> json" where
  "overall_health w =
     JObj [(''status'', JStr ''ok''),
           (''total_nodes'', JNum (int (length (user_configs w)))),
           (''active_agents'',
              JNum (int (length (filter (\<lambda>(k, m). truthy (agent_running w (Some m)))
                                   (user_agents w))))),
           (''services'', JObj [(''config'', JBool True),
                                (''token'', JBool True),
                                (''multi_node'', JBool True)])]"

definition health_check :: "world \<Rightarrow> request \<Rightarrow> response" where
  "health_check w r =
     resp_success ''Health check completed''
       (case request_node_id r of
          None \<Rightarrow> overall_health w
        | Some n \<Rightarrow> if n \<noteq> [] then node_health w n else overall_health w)"

text \<open>
  \<^verbatim>\<open>Service.cleanup_node\<close>, statement by statement. Flask serves the requests
  in concurrent threads and nothing in the module locks the registries, so
  between two statements of one request other requests may run; the longest
  gap is the join inside \<^verbatim>\<open>stop_agent()\<close>, and what the others do while a
  request waits there is what they have done before its next statement.
  \<open>pc\<close> names the statement a request is about to execute:
  \<^item> \<open>TestAgents\<close>: \<^verbatim>\<open>if node_id in user_agents\<close>;
  \<^item> \<open>StopAgent\<close>: \<^verbatim>\<open>user_agents[node_id].stop_agent()\<close>, with its join;
  \<^item> \<open>DelAgent\<close>: \<^verbatim>\<open>del user_agents[node_id]\<close>;
  \<^item> \<open>TestConfigs\<close>: \<^verbatim>\<open>if node_id in user_configs\<close>;
  \<^item> \<open>DelConfig\<close>: \<^verbatim>\<open>del user_configs[node_id]\<close>;
  \<^item> \<open>Finish\<close>: the log record and \<^verbatim>\<open>return True\<close>;
  \<^item> \<open>Return b\<close>: the call has returned \<open>b\<close>.
  A subscript or a \<^verbatim>\<open>del\<close> of a key that is no longer there raises
  \<^verbatim>\<open>KeyError\<close>, which the \<^verbatim>\<open>except\<close> branch logs and answers with
  \<^verbatim>\<open>return False\<close>.
\<close>

datatype pc = TestAgents | StopAgent | DelAgent | TestConfigs | DelConfig | Finish | Return bool

definition cleanup_raised :: "string \<Rightarrow> world \<Rightarrow> world \<times> pc" where
  "cleanup_raised n w = (logger ERROR ''Error cleaning up node {}'' [JStr n] w, Return False)"

fun cleanup_step :: "real option \<Rightarrow> string \<Rightarrow> world \<Rightarrow> pc \<Rightarrow> world \<times> pc" where
  "cleanup_step life n w TestAgents =
     (w, if map_of (user_agents w) (KStr n) \<noteq> None then StopAgent else TestConfigs)"
| "cleanup_step life n w StopAgent =
     (case map_of (user_agents w) (KStr n) of
        None \<Rightarrow> cleanup_raised n w
      | Some m \<Rightarrow>
          (case stop_agent life w m of
             (w', m') \<Rightarrow> (w'\<lparr>user_agents := AList.update (KStr n) m' (user_agents w')\<rparr>, DelAgent)))"
| "cleanup_step life n w DelAgent =
     (if map_of (user_agents w) (KStr n) \<noteq> None
      then (w\<lparr>user_agents := AList.delete (KStr n) (user_agents w)\<rparr>, TestConfigs)
      else cleanup_raised n w)"
| "cleanup_step life n w TestConfigs =
     (w, if map_of (user_configs w) (KStr n) \<noteq> None then DelConfig else Finish)"
| "cleanup_step life n w DelConfig =
     (if map_of (user_configs w) (KStr n) \<noteq> None
      then (w\<lparr>user_configs := AList.delete (KStr n) (user_configs w)\<rparr>, Finish)
      else cleanup_raised n w)"
| "cleanup_step life n w Finish =
     (logger INFO ''Cleaned up resources for node {}'' [JStr n] w, Return True)"
| "cleanup_step life n w (Return b) = (w, Return b)"

fun pc_rank :: "pc \<Rightarrow> nat" where
  "pc_rank TestAgents = 6"
| "pc_rank StopAgent = 5"
| "pc_rank DelAgent = 4"
| "pc_rank TestConfigs = 3"
| "pc_rank DelConfig = 2"
| "pc_rank Finish = 1"
| "pc_rank (Return b) = 0"

text \<open>
  One call of \<^verbatim>\<open>cleanup_node\<close> from statement \<open>pc\<close> on. \<open>interf pc\<close> is what
  the other threads of the process did to the state since the previous
  statement of this call, just before it executes statement \<open>pc\<close>; \<open>life\<close>
  is the remaining lifetime of the worker thread at the join. With
  \<open>undisturbed\<close> the call runs alone.
\<close>

function (sequential) cleanup_from ::
  "(pc \<Rightarrow> world \<Rightarrow> world) \<Rightarrow> real option \<Rightarrow> string \<Rightarrow> world \<Rightarrow> pc \<Rightarrow> bool \<times> world"
where
  "cleanup_from interf life n w (Return b) = (b, w)"
| "cleanup_from interf life n w pc =
     (case cleanup_step life n (interf pc w) pc of
        (w', pc') \<Rightarrow> cleanup_from interf life n w' pc')"
  by pat_completeness auto
termination
  by (relation "measure (\<lambda>(interf, life, n, w, pc). pc_rank pc)")
     (auto simp add: cleanup_raised_def split: option.splits if_splits prod.splits)

definition cleanup_node ::
  "(pc \<Rightarrow> world \<Rightarrow> world) \<Rightarrow> real option \<Rightarrow> world \<Rightarrow> string \<Rightarrow> bool \<times> world"
where
  "cleanup_node interf life w n = cleanup_from interf life n w TestAgents"

definition undisturbed :: "pc \<Rightarrow> world \<Rightarrow> world" where
  "undisturbed pc w = w"


text \<open>The route \<^verbatim>\<open>DELETE /processor/cleanup-user\<close> of \<^verbatim>\<open>routes.py\<close>.\<close>

definition cleanup_user ::
  "(pc \<Rightarrow> world \<Rightarrow> world) \<Rightarrow> real option \<Rightarrow> world \<Rightarrow> request \<Rightarrow> response \<times> world"
where
  "cleanup_user interf life w r =
     (case request_node_id r of
        None \<Rightarrow>
          (resp_failure ''nodeId required''
             (Text ''Please provide nodeId parameter or X-Node-ID header'' []), w)
      | Some n \<Rightarrow>
          if n = [] then
            (resp_failure ''nodeId required''
               (Text ''Please provide nodeId parameter or X-Node-ID header'' []), w)
          else
            (let (success, w') = cleanup_node interf life w n in
             if success then
               (resp_success ''User resources cleaned up successfully''
                  (JObj [(''nodeId'', JStr n)]), w')
             else
               (resp_failure ''Failed to cleanup user resources''
                  (Text ''Could not cleanup resources for nodeId: {}'' [JStr n]), w')))"

text \<open>
  \<^verbatim>\<open>Service._get_livekit_config_for_node\<close>: the three LiveKit values of the
  node's config, or three \<^verbatim>\<open>None\<close> when the key or the secret is falsy or
  when reading the config raises.
\<close>

definition get_livekit_config_for_node :: "world \<Rightarrow> string \<Rightarrow> json \<times> json \<times> json" where
  "get_livekit_config_for_node w n =
     (let node_config = (case map_of (user_configs w) (KStr n) of None \<Rightarrow> JObj [] | Some c \<Rightarrow> c) in
      case py_get node_config ''liveKit'' (JObj []) of
        Inl e \<Rightarrow> (JNull, JNull, JNull)
      | Inr livekit_config \<Rightarrow>
         (case livekit_config of
            JObj lk \<Rightarrow>
              (let api_key = (case map_of lk ''apiKey'' of None \<Rightarrow> JNull | Some v \<Rightarrow> v);
                   secret = (case map_of lk ''secret'' of None \<Rightarrow> JNull | Some v \<Rightarrow> v);
                   server_url = (case map_of lk ''serverUrl'' of None \<Rightarrow> JNull | Some v \<Rightarrow> v)
               in if \<not> truthy api_key \<or> \<not> truthy secret then (JNull, JNull, JNull)
                  else (api_key, secret, server_url))
          | _ \<Rightarrow> (JNull, JNull, JNull)))"

text \<open>
  \<^verbatim>\<open>Service.get_token\<close>. The LiveKit library and \<^verbatim>\<open>uuid\<close> are parameters:
  \<open>jwt api_key secret name room\<close> is the token that
  \<^verbatim>\<open>AccessToken(api_key, secret)...to_jwt()\<close> returns, or the exception it
  raises; \<open>uuid\<close> is \<^verbatim>\<open>str(uuid.uuid4())\<close>. \<open>token_name\<close> is
  \<^verbatim>\<open>request.args.get("name", f"user-{node_id}")\<close>, \<open>token_room\<close> the room of the
  request or, when there is none, the generated \<^verbatim>\<open>room-{node_id}-{uuid[:8]}\<close>.
\<close>

definition token_name :: "request \<Rightarrow> string \<Rightarrow> string" where
  "token_name r n = (case map_of (args r) ''name'' of None \<Rightarrow> ''user-'' @ n | Some s \<Rightarrow> s)"

definition token_room :: "string \<Rightarrow> request \<Rightarrow> string \<Rightarrow> string" where
  "token_room uuid r n =
     (let generated = ''room-'' @ n @ ''-'' @ take 8 uuid in
      case map_of (args r) ''room'' of
        None \<Rightarrow> generated
      | Some s \<Rightarrow> if s = [] then generated else s)"

definition get_token ::
  "(json \<Rightarrow> json \<Rightarrow> string \<Rightarrow> string \<Rightarrow> error + string) \<Rightarrow> string \<Rightarrow> world \<Rightarrow> request \<Rightarrow> response"
where
  "get_token jwt uuid w r =
     (case request_node_id r of
        None \<Rightarrow>
          resp_failure ''nodeId is required''
            (Text ''Please provide nodeId parameter or X-Node-ID header'' [])
      | Some n \<Rightarrow>
          if n = [] then
            resp_failure ''nodeId is required''
              (Text ''Please provide nodeId parameter or X-Node-ID header'' [])
          else
            (case map_of (user_configs w) (KStr n) of
               None \<Rightarrow>
                 resp_failure ''Configuration not found''
                   (Text ''No configuration found for nodeId: {}'' [JStr n])
             | Some node_config \<Rightarrow>
                 if \<not> truthy node_config then
                   resp_failure ''Configuration not found''
                     (Text ''No configuration found for nodeId: {}'' [JStr n])
                 else
                   (case get_livekit_config_for_node w n of
                      (api_key, secret, server_url) \<Rightarrow>
                        if \<not> truthy api_key \<or> \<not> truthy secret then
                          resp_failure ''LiveKit configuration not available''
                            (Text ''Please configure LiveKit credentials for nodeId: {}'' [JStr n])
                        else
                          (let name = token_name r n;
                               room = token_room uuid r n
                           in case jwt api_key secret name room of
                                Inl e \<Rightarrow> resp_failure ''Failed to generate token'' (Str e)
                              | Inr tok \<Rightarrow>
                                  resp_success ''Token generated successfully''
                                    (JObj [(''token'', JStr tok),
                                           (''room'', JStr room),
                                           (''serverUrl'', server_url),
                                           (''nodeId'', JStr n)])))))"

text \<open>
  \<^verbatim>\<open>load_config_from_env\<close> and \<^verbatim>\<open>Service._auto_load_env_config\<close>; \<open>env\<close> is the
  process environment read by \<^verbatim>\<open>os.getenv\<close>.
\<close>

definition getenv :: "(string \<times> string) list \<Rightarrow> string \<Rightarrow> string \<Rightarrow> string" where
  "getenv env k d = (case map_of env k of None \<Rightarrow> d | Some v \<Rightarrow> v)"

definition load_config_from_env :: "(string \<times> string) list \<Rightarrow> json" where
  "load_config_from_env env =
     JObj [(''stt'', JObj [(''provider'', JStr (getenv env ''STT_PROVIDER'' ''groq'')),
                            (''apiKey'', JStr (getenv env ''STT_API_KEY'' []))]),
           (''llm'', JObj [(''provider'', JStr (getenv env ''LLM_PROVIDER'' ''groq'')),
                            (''apiKey'', JStr (getenv env ''LLM_API_KEY'' []))]),
           (''tts'', JObj [(''provider'', JStr (getenv env ''TTS_PROVIDER'' ''groq'')),
                            (''apiKey'', JStr (getenv env ''TTS_API_KEY'' []))]),
           (''liveKit'', JObj [(''apiKey'', JStr (getenv env ''LIVEKIT_API_KEY'' [])),
                                (''secret'', JStr (getenv env ''LIVEKIT_API_SECRET'' [])),
                                (''serverUrl'', JStr (getenv env ''LIVEKIT_SERVER_URL'' []))])]"

definition auto_load_env_config :: "(string \<times> string) list \<Rightarrow> world \<Rightarrow> world" where
  "auto_load_env_config env w =
     (let env_config = load_config_from_env env;
          n = getenv env ''NODE_ID'' ''default-node''
      in if getenv env ''LIVEKIT_API_KEY'' [] \<noteq> [] \<and>
            getenv env ''LIVEKIT_API_SECRET'' [] \<noteq> [] \<and>
            getenv env ''LIVEKIT_SERVER_URL'' [] \<noteq> []
         then
           (let w0 = logger INFO ''Auto-loading configuration from environment for node: {}'' [JStr n] w;
                w1 = w0\<lparr>user_configs := AList.update (KStr n) env_config (user_configs w0)\<rparr>;
                (w2, am) = start_agent w1 (UserAgentManager (JStr n) env_config);
                w3 = w2\<lparr>user_agents := AList.update (KStr n) am (user_agents w2)\<rparr>
            in logger INFO ''Auto-started LiveKit agent for node: {}'' [JStr n] w3)
         else
           logger WARNING ''LiveKit credentials not found in environment variables'' [] w)"

section \<open>The worker's wait for a valid config\<close>

text \<open>
  \<^verbatim>\<open>WorkerOptions(entrypoint_fnc, api_key, api_secret, ws_url)\<close> of the LiveKit
  library, built from \<^verbatim>\<open>livekit_config["apiKey"]\<close> and its two siblings; a
  subscript of a missing key raises.
\<close>

record worker_options =
  api_key :: json
  api_secret :: json
  ws_url :: json

fun py_index :: "json \<Rightarrow> string \<Rightarrow> error + json" where
  "py_index (JObj kvs) k = (case map_of kvs k of None \<Rightarrow> Inl KeyError | Some v \<Rightarrow> Inr v)"
| "py_index _ k = Inl TypeError"

definition WorkerOptions :: "json \<Rightarrow> error + worker_options" where
  "WorkerOptions cfg =
     (case py_get cfg ''liveKit'' (JObj []) of
        Inl e \<Rightarrow> Inl e
      | Inr livekit_config \<Rightarrow>
         (case py_index livekit_config ''apiKey'' of
            Inl e \<Rightarrow> Inl e
          | Inr k \<Rightarrow>
             (case py_index livekit_config ''secret'' of
                Inl e \<Rightarrow> Inl e
              | Inr s \<Rightarrow>
                 (case py_index livekit_config ''serverUrl'' of
                    Inl e \<Rightarrow> Inl e
                  | Inr u \<Rightarrow> Inr \<lparr>api_key = k, api_secret = s, ws_url = u\<rparr>))))"

text \<open>
  One pass through the \<^verbatim>\<open>try\<close> block of \<^verbatim>\<open>_create_worker_options\<close>: the
  options when the config is valid, else nothing; with the log records written
  and the \<^verbatim>\<open>asyncio.sleep(5)\<close> of the invalid and the exception branch.
\<close>

definition attempt :: "json \<Rightarrow> json \<Rightarrow> worker_options option \<times> event list" where
  "attempt node cfg =
     (case validate_config node cfg of
        Inl e \<Rightarrow>
          (None, [Log ERROR ''Error creating worker options for node {}'' [node], Sleep 5])
      | Inr (ok, evs) \<Rightarrow>
          if ok then
            (case WorkerOptions cfg of
               Inl e \<Rightarrow>
                 (None, evs @ [Log ERROR ''Error creating worker options for node {}'' [node],
                               Sleep 5])
             | Inr opts \<Rightarrow> (Some opts, evs))
          else
            (None, evs @ [Log WARNING ''Invalid configuration for node {}, retrying in 5 seconds...'' [node],
                          Sleep 5]))"

text \<open>
  \<^verbatim>\<open>UserAgentManager._create_worker_options\<close>. The loop may run forever, so
  the result is \<open>None\<close> when it does not return. \<open>obs i\<close> is what the \<open>i\<close>-th
  evaluation of the loop condition and body observes: whether
  \<^verbatim>\<open>shutdown_event.is_set()\<close>, and the value of \<^verbatim>\<open>self.config\<close>. \<open>tr\<close> collects
  the log records and sleeps so far.
\<close>

partial_function (option) create_worker_options ::
  "json \<Rightarrow> (nat \<Rightarrow> bool \<times> json) \<Rightarrow> nat \<Rightarrow> event list \<Rightarrow> (worker_options option \<times> event list) option"
where
  "create_worker_options node obs i tr =
     (if fst (obs i) then Some (None, tr)
      else
        (case attempt node (snd (obs i)) of
           (Some opts, evs) \<Rightarrow> Some (Some opts, tr @ evs)
         | (None, evs) \<Rightarrow> create_worker_options node obs (Suc i) (tr @ evs)))"

text \<open>The durations of the sleeps in a trace.\<close>

fun sleeps :: "event list \<Rightarrow> nat list" where
  "sleeps [] = []"
| "sleeps (Sleep n # es) = n # sleeps es"
| "sleeps (Log l s vs # es) = sleeps es"

section \<open>VoiceAssistant\<close>

text \<open>
  \<^verbatim>\<open>str.lower()\<close> on the letters \<open>A\<close> to \<open>Z\<close>; every other character is kept.
\<close>

definition lower_char :: "char \<Rightarrow> char" where
  "lower_char c =
     (case map_of (zip ''ABCDEFGHIJKLMNOPQRSTUVWXYZ'' ''abcdefghijklmnopqrstuvwxyz'') c of
        None \<Rightarrow> c
      | Some l \<Rightarrow> l)"

definition lower :: "string \<Rightarrow> string" where
  "lower s = map lower_char s"

text \<open>
  The module table \<^verbatim>\<open>OPTIONAL_PLUGINS\<close>, filled when the process starts:
  \<open>imported p\<close> says whether \<^verbatim>\<open>livekit.plugins.p\<close> could be imported. An entry
  holds the module, named by its plugin, or \<^verbatim>\<open>None\<close>.
\<close>

definition OPTIONAL_PLUGINS :: "(string \<Rightarrow> bool) \<Rightarrow> (string \<times> string option) list" where
  "OPTIONAL_PLUGINS imported =
     map (\<lambda>p. (p, if imported p then Some p else None))
       [''deepgram'', ''azure'', ''openai'', ''anthropic'', ''elevenlabs'', ''google'']"

text \<open>\<^verbatim>\<open>VoiceAssistant._get_plugin\<close>: the module or \<^verbatim>\<open>None\<close>, and the warning it logs.\<close>

definition get_plugin :: "(string \<Rightarrow> bool) \<Rightarrow> string \<Rightarrow> string option \<times> event list" where
  "get_plugin imported plugin_name =
     (case map_of (OPTIONAL_PLUGINS imported) (lower plugin_name) of
        Some (Some m) \<Rightarrow> (Some m, [])
      | _ \<Rightarrow> (None, [Log WARNING ''Plugin {} is not available'' [JStr plugin_name]]))"

text \<open>
  A provider adapter: \<^verbatim>\<open>module.STT(api_key=...)\<close>, \<^verbatim>\<open>module.LLM(...)\<close> or
  \<^verbatim>\<open>module.TTS(...)\<close>, kept as the capability, the module and the key. The
  constructors of the provider libraries are taken not to raise.
\<close>

datatype capability = STT | LLM | TTS

datatype adapter = Adapter capability string json

text \<open>\<^verbatim>\<open>class VoiceAssistant\<close>.\<close>

record assistant =
  assistant_config :: json
  assistant_node_id :: json
  stt :: "adapter option"
  llm :: "adapter option"
  tts :: "adapter option"
  initialized :: bool

definition DEFAULT_CONFIG :: json where
  "DEFAULT_CONFIG =
     JObj [(''stt'', JObj [(''provider'', JStr ''groq''), (''apiKey'', JStr [])]),
           (''llm'', JObj [(''provider'', JStr ''groq''), (''apiKey'', JStr [])]),
           (''tts'', JObj [(''provider'', JStr ''groq''), (''apiKey'', JStr [])]),
           (''liveKit'', JObj [(''apiKey'', JStr []), (''secret'', JStr []),
                                (''serverUrl'', JStr [])])]"

definition VoiceAssistant :: "json \<Rightarrow> json \<Rightarrow> assistant" where
  "VoiceAssistant cfg node =
     \<lparr>assistant_config = py_or cfg DEFAULT_CONFIG, assistant_node_id = node,
      stt = None, llm = None, tts = None, initialized = False\<rparr>"

text \<open>
  The three methods \<^verbatim>\<open>_initialize_stt\<close>, \<^verbatim>\<open>_initialize_llm\<close> and
  \<^verbatim>\<open>_initialize_tts\<close> are one \<^verbatim>\<open>if\<close>/\<^verbatim>\<open>elif\<close> chain each: \<open>groq\<close> first, then
  the providers that need an optional plugin, then the fallback. \<open>section\<close> is
  the key of the config read, \<open>providers\<close> the \<^verbatim>\<open>elif\<close> branches in order, each
  with the plugin it asks \<^verbatim>\<open>_get_plugin\<close> for.
\<close>

fun section_of :: "capability \<Rightarrow> string" where
  "section_of STT = ''stt''"
| "section_of LLM = ''llm''"
| "section_of TTS = ''tts''"

fun providers :: "capability \<Rightarrow> (string \<times> string) list" where
  "providers STT = [(''deepgram'', ''deepgram''), (''azure'', ''azure'')]"
| "providers LLM = [(''openai'', ''openai''), (''anthropic'', ''anthropic''),
                    (''azure'', ''azure''), (''gemini'', ''google'')]"
| "providers TTS = [(''elevenlabs'', ''elevenlabs''), (''openai'', ''openai''),
                    (''azure'', ''azure''), (''google'', ''google''),
                    (''deepgram'', ''deepgram'')]"

fun capability_name :: "capability \<Rightarrow> string" where
  "capability_name STT = ''STT''"
| "capability_name LLM = ''LLM''"
| "capability_name TTS = ''TTS''"

fun adapter_of :: "capability \<Rightarrow> assistant \<Rightarrow> adapter option" where
  "adapter_of STT a = stt a"
| "adapter_of LLM a = llm a"
| "adapter_of TTS a = tts a"

fun set_adapter :: "capability \<Rightarrow> adapter \<Rightarrow> assistant \<Rightarrow> assistant" where
  "set_adapter STT x a = a\<lparr>stt := Some x\<rparr>"
| "set_adapter LLM x a = a\<lparr>llm := Some x\<rparr>"
| "set_adapter TTS x a = a\<lparr>tts := Some x\<rparr>"

definition initialize_provider ::
  "(string \<Rightarrow> bool) \<Rightarrow> capability \<Rightarrow> assistant \<Rightarrow> error + assistant \<times> event list"
where
  "initialize_provider imported cap a =
     (case py_get (assistant_config a) (section_of cap) (JObj []) of
        Inl e \<Rightarrow> Inl e
      | Inr sc \<Rightarrow>
         (case py_get sc ''provider'' (JStr ''groq'') of
            Inl e \<Rightarrow> Inl e
          | Inr (JStr p) \<Rightarrow>
             (case py_get sc ''apiKey'' (JStr []) of
                Inl e \<Rightarrow> Inl e
              | Inr key \<Rightarrow>
                 (let provider = lower p;
                      info = Log INFO
                               (''Initializing '' @ capability_name cap @ '' with provider: {} for node {}'')
                               [JStr provider, assistant_node_id a]
                  in if provider = ''groq'' then
                       Inr (set_adapter cap (Adapter cap ''groq'' key) a, [info])
                     else
                       (case map_of (providers cap) provider of
                          Some plugin_name \<Rightarrow>
                            (case get_plugin imported plugin_name of
                               (Some plugin, evs) \<Rightarrow>
                                 Inr (set_adapter cap (Adapter cap plugin key) a, info # evs)
                             | (None, evs) \<Rightarrow> Inr (a, info # evs))
                        | None \<Rightarrow>
                            Inr (set_adapter cap (Adapter cap ''groq'' key) a,
                                 [info,
                                  Log WARNING
                                    (''Unsupported '' @ capability_name cap
                                       @ '' provider: {}, defaulting to groq for node {}'')
                                    [JStr provider, assistant_node_id a]]))))
          | Inr _ \<Rightarrow> Inl AttributeError))"

definition initialize_stt :: "(string \<Rightarrow> bool) \<Rightarrow> assistant \<Rightarrow> error + assistant \<times> event list" where
  "initialize_stt imported a = initialize_provider imported STT a"

definition initialize_llm :: "(string \<Rightarrow> bool) \<Rightarrow> assistant \<Rightarrow> error + assistant \<times> event list" where
  "initialize_llm imported a = initialize_provider imported LLM a"

definition initialize_tts :: "(string \<Rightarrow> bool) \<Rightarrow> assistant \<Rightarrow> error + assistant \<times> event list" where
  "initialize_tts imported a = initialize_provider imported TTS a"

text \<open>
  \<^verbatim>\<open>VoiceAssistant.initialize\<close>: \<^verbatim>\<open>False\<close> when the config is empty or its
  LiveKit credentials are missing; every exception is caught, logged and
  answered with \<^verbatim>\<open>False\<close>, the adapters set before it staying set.
\<close>

definition initialize_failed :: "assistant \<Rightarrow> event list \<Rightarrow> bool \<times> assistant \<times> event list" where
  "initialize_failed a evs =
     (False, a\<lparr>initialized := False\<rparr>,
      evs @ [Log ERROR ''Initialization failed for node {}'' [assistant_node_id a]])"

definition initialize :: "(string \<Rightarrow> bool) \<Rightarrow> assistant \<Rightarrow> bool \<times> assistant \<times> event list" where
  "initialize imported a =
     (if \<not> truthy (assistant_config a) then (False, a, [])
      else
        (case all_livekit (assistant_config a) required_livekit of
           Inl e \<Rightarrow> initialize_failed a []
         | Inr ok \<Rightarrow>
            if \<not> ok then
              (False, a, [Log ERROR ''LiveKit credentials missing for node {}'' [assistant_node_id a]])
            else
              (case initialize_stt imported a of
                 Inl e \<Rightarrow> initialize_failed a []
               | Inr (a1, e1) \<Rightarrow>
                  (case initialize_llm imported a1 of
                     Inl e \<Rightarrow> initialize_failed a1 e1
                   | Inr (a2, e2) \<Rightarrow>
                      (case initialize_tts imported a2 of
                         Inl e \<Rightarrow> initialize_failed a2 (e1 @ e2)
                       | Inr (a3, e3) \<Rightarrow>
                           (True, a3\<lparr>initialized := True\<rparr>,
                            e1 @ e2 @ e3 @
                            [Log INFO ''Voice assistant initialized for node {}''
                               [assistant_node_id a3]]))))))"

section \<open>Workers alive\<close>





text \<open>
  Every live thread that carries the node identifier \<open>k\<close> is the thread the
  handle \<open>m\<close> holds.
\<close>

definition owned :: "key \<Rightarrow> world \<Rightarrow> manager \<Rightarrow> bool" where
  "owned k w m =
     (\<forall>i < length (threads w).
        alive (threads w ! i) \<and> dict_key (thread_name (threads w ! i)) = Inr k
        \<longrightarrow> agent_thread m = Some i)"

text \<open>
  The running service. \<open>Service()\<close> loads the environment once; after that,
  of the routes of \<^verbatim>\<open>routes.py\<close> only \<^verbatim>\<open>cleanup-user\<close> writes a registry or
  touches a thread (\<^verbatim>\<open>get-config\<close>, \<^verbatim>\<open>health\<close>, \<^verbatim>\<open>getToken\<close>, \<^verbatim>\<open>getRooms\<close> and
  \<^verbatim>\<open>users\<close> read; the route of \<^verbatim>\<open>set_config\<close> is commented out). Any number
  of cleanup requests are in flight at once; a transition lets a new request
  arrive, lets one request in flight execute its next statement, or lets a
  worker thread end.
\<close>

datatype transition = Arrive string | Advance nat "real option" | Ends nat

record service =
  current :: world
  inflight :: "(string \<times> pc) list"

fun service_step :: "service \<Rightarrow> transition \<Rightarrow> service" where
  "service_step s (Arrive n) = s\<lparr>inflight := inflight s @ [(n, TestAgents)]\<rparr>"
| "service_step s (Advance i life) =
     (if i < length (inflight s) then
        (case inflight s ! i of
           (n, pc) \<Rightarrow>
             (case cleanup_step life n (current s) pc of
                (w', pc') \<Rightarrow> \<lparr>current = w', inflight = (inflight s)[i := (n, pc')]\<rparr>))
      else s)"
| "service_step s (Ends t) = s\<lparr>current := thread_exit t (current s)\<rparr>"


section \<open>Example requests and states\<close>

definition r_missing :: request where
  "r_missing =
     \<lparr>get_json = Some (JObj [(''nodeId'', JStr ''n1''), (''liveKit'', JObj []),
                              (''stt'', JObj []), (''llm'', JObj [])]),
      args = [], x_node_id = None\<rparr>"

definition cfg_no_secret :: json where
  "cfg_no_secret =
     JObj [(''nodeId'', JStr ''n1''),
           (''liveKit'', JObj [(''apiKey'', JStr ''key''), (''serverUrl'', JStr ''wss://lk'')]),
           (''stt'', JObj []), (''llm'', JObj []), (''tts'', JObj [])]"

definition cfg_valid :: json where
  "cfg_valid =
     JObj [(''nodeId'', JStr ''n1''),
           (''liveKit'', JObj [(''apiKey'', JStr ''key''), (''secret'', JStr ''s3''),
                                (''serverUrl'', JStr ''wss://lk'')]),
           (''stt'', JObj []), (''llm'', JObj []), (''tts'', JObj [])]"

definition cfg_no_url :: json where
  "cfg_no_url =
     JObj [(''nodeId'', JStr ''n1''),
           (''liveKit'', JObj [(''apiKey'', JStr ''key''), (''secret'', JStr ''s3''),
                                (''serverUrl'', JStr [])]),
           (''stt'', JObj []), (''llm'', JObj []), (''tts'', JObj [])]"

definition post :: "json \<Rightarrow> request" where
  "post body = \<lparr>get_json = Some body, args = [], x_node_id = None\<rparr>"

definition query :: "string \<Rightarrow> request" where
  "query n = \<lparr>get_json = None, args = [(''nodeId'', n)], x_node_id = None\<rparr>"

definition jwt_stub :: "json \<Rightarrow> json \<Rightarrow> string \<Rightarrow> string \<Rightarrow> error + string" where
  "jwt_stub k0 s0 name room =
     (case (k0, s0) of
        (JStr k, JStr s) \<Rightarrow> Inr (k @ ''.'' @ name @ ''.'' @ room)
      | _ \<Rightarrow> Inl LibraryError)"

definition m_n1 :: manager where
  "m_n1 = \<lparr>node_id = JStr ''n1'', config = cfg_valid, agent_thread = Some 0, shutdown_event = False\<rparr>"

definition w_n1 :: world where
  "w_n1 =
     \<lparr>user_configs = [(KStr ''n1'', cfg_valid)],
      user_agents = [(KStr ''n1'', m_n1)],
      threads = [\<lparr>thread_name = JStr ''n1'', alive = True\<rparr>],
      logs = [Log INFO ''Received Configuration Data for node {}'' [JStr ''n1''],
              Log INFO ''LiveKit agent started for node {}'' [JStr ''n1'']],
      clock = 0\<rparr>"

definition obs_late :: "nat \<Rightarrow> bool \<times> json" where
  "obs_late n = (False, if n < 2 then cfg_no_secret else cfg_valid)"

definition obs_cancel :: "nat \<Rightarrow> bool \<times> json" where
  "obs_cancel n = (1 \<le> n, cfg_no_secret)"

definition cfg_providers :: json where
  "cfg_providers =
     JObj [(''liveKit'', JObj [(''apiKey'', JStr ''key''), (''secret'', JStr ''s3''),
                                (''serverUrl'', JStr ''wss://lk'')]),
           (''stt'', JObj [(''provider'', JStr ''Whisper''), (''apiKey'', JStr ''k1'')]),
           (''llm'', JObj [(''provider'', JStr ''OpenAI''), (''apiKey'', JStr ''k2'')]),
           (''tts'', JObj [(''provider'', JStr ''ElevenLabs''), (''apiKey'', JStr ''k3'')])]"

definition only_elevenlabs :: "string \<Rightarrow> bool" where
  "only_elevenlabs p = (p = ''elevenlabs'')"

definition env_n1 :: "(string \<times> string) list" where
  "env_n1 = [(''NODE_ID'', ''n1''), (''LIVEKIT_API_KEY'', ''key''),
             (''LIVEKIT_API_SECRET'', ''s3''), (''LIVEKIT_SERVER_URL'', ''wss://lk'')]"


section \<open>Field lemmas\<close>

lemma logger_fields [simp]:
  "user_configs (logger l s vs w) = user_configs w"
  "user_agents (logger l s vs w) = user_agents w"
  "threads (logger l s vs w) = threads w"
  "clock (logger l s vs w) = clock w"
  "logs (logger l s vs w) = logs w @ [Log l s vs]"
  by (simp_all add: logger_def)

lemma thread_exit_fields [simp]:
  "user_configs (thread_exit t w) = user_configs w"
  "user_agents (thread_exit t w) = user_agents w"
  "clock (thread_exit t w) = clock w"
  "logs (thread_exit t w) = logs w"
  "length (threads (thread_exit t w)) = length (threads w)"
  by (simp_all add: thread_exit_def)

lemma is_alive_logger [simp]: "is_alive (logger l s vs w) t = is_alive w t"
  by (simp add: is_alive_def)

lemma is_alive_clock [simp]: "is_alive (w\<lparr>clock := c\<rparr>) t = is_alive w t"
  by (simp add: is_alive_def)

lemma stop_agent_registries [simp]:
  "user_configs (fst (stop_agent life w m)) = user_configs w"
  "user_agents (fst (stop_agent life w m)) = user_agents w"
  by (simp_all add: stop_agent_def Let_def split: option.split)

lemma start_agent_registries [simp]:
  "user_configs (fst (start_agent w m)) = user_configs w"
  "user_agents (fst (start_agent w m)) = user_agents w"
  by (simp_all add: start_agent_def spawn_def split: option.split)

lemma map_of_update_same: "map_of (AList.update k v al) k = Some v"
  by (simp add: update_conv')


section \<open>Storing a config and starting its worker\<close>

lemma spawn_result:
  "threads (fst (spawn w m)) = threads w @ [\<lparr>thread_name = node_id m, alive = True\<rparr>]"
  "snd (spawn w m) = m\<lparr>agent_thread := Some (length (threads w))\<rparr>"
  "user_configs (fst (spawn w m)) = user_configs w"
  "user_agents (fst (spawn w m)) = user_agents w"
  "clock (fst (spawn w m)) = clock w"
  by (simp_all add: spawn_def)

lemma start_fresh [simp]: "start_agent w (UserAgentManager node d) = spawn w (UserAgentManager node d)"
  by (simp add: start_agent_def UserAgentManager_def)

lemma store_and_start_eq:
  "store_and_start life w node k d =
     (let w1 = w\<lparr>user_configs := AList.update k d (user_configs w)\<rparr>;
          w2 = (case map_of (user_agents w) k of None \<Rightarrow> w1 | Some m \<Rightarrow> fst (stop_agent life w1 m));
          w3 = fst (spawn w2 (UserAgentManager node d))
      in w3\<lparr>user_agents :=
            AList.update k ((UserAgentManager node d)\<lparr>agent_thread := Some (length (threads w2))\<rparr>)
              (user_agents w3)\<rparr>)"
  by (simp add: store_and_start_def Let_def spawn_def split_def)

lemma store_and_start_configs:
  "user_configs (store_and_start life w node k d) = AList.update k d (user_configs w)"
  by (simp add: store_and_start_eq Let_def spawn_result split: option.split)

lemma store_and_start_agent:
  "\<exists>t. map_of (user_agents (store_and_start life w node k d)) k =
          Some \<lparr>node_id = node, config = d, agent_thread = Some t, shutdown_event = False\<rparr>
       \<and> is_alive (store_and_start life w node k d) t"
  by (simp add: store_and_start_eq Let_def spawn_result map_of_update_same UserAgentManager_def
      is_alive_def)

lemma set_config_accepts:
  assumes "get_json r = Some (JObj kvs)"
    and "list_all (\<lambda>key. py_in key kvs) required_top_level"
    and "body_node_id (JObj kvs) r = Inr node" and "truthy node" and "dict_key node = Inr k"
  shows "set_config life w r =
           (resp_success ''Config stored and agent started''
             (JObj [(''status'', JStr ''ok''), (''nodeId'', node)]),
            store_and_start life (logger INFO ''Received Configuration Data for node {}'' [node] w)
              node k (JObj kvs))"
  using assms by (simp add: set_config_def Let_def)

section \<open>Activation with invalid media credentials\<close>

text \<open>
  C1, as stated, fails. \<open>set_config\<close> tests the node identifier and the four
  top-level keys only; the LiveKit credentials are tested later, by the worker.
  A request for node \<open>n1\<close> whose \<open>liveKit\<close> entry has no \<open>secret\<close> is
  answered with success, and \<open>get_config\<close> then returns the stored config,
  which is not the empty structure.
\<close>

theorem set_config_accepts_missing_secret:
  "\<not> media_credentials_ok cfg_no_secret
   \<and> status (fst (set_config None empty_world (post cfg_no_secret))) = ''success''
   \<and> data (get_config (snd (set_config None empty_world (post cfg_no_secret))) (query ''n1''))
       = Some (JObj [(''config'', cfg_no_secret), (''nodeId'', JStr ''n1'')])
   \<and> cfg_no_secret \<noteq> JObj []"
  by (simp add: media_credentials_ok_def required_livekit_def cfg_no_secret_def post_def
      query_def set_config_def body_node_id_def py_or_def required_top_level_def Let_def
      get_config_def request_node_id_def resp_success_def store_and_start_configs
      empty_world_def)

text \<open>
  C1, amended. For every activation request that carries a node identifier and
  the four top-level keys and whose config violates the media-credential
  invariant, \<open>set_config\<close> reports success (HTTP 200) and stores the config:
  a subsequent \<open>get_config\<close> for that node returns it, and a manager holding
  it is registered with a live worker thread.
\<close>

theorem set_config_stores_invalid_credentials:
  assumes "get_json r = Some (JObj kvs)"
    and "list_all (\<lambda>key. py_in key kvs) required_top_level"
    and "body_node_id (JObj kvs) r = Inr (JStr n)" and "n \<noteq> []"
    and "\<not> media_credentials_ok (JObj kvs)"
    and "request_node_id q = Some n"
  shows "status (fst (set_config life w r)) = ''success''
       \<and> http (fst (set_config life w r)) = 200
       \<and> get_config (snd (set_config life w r)) q =
           resp_success ''Configuration retrieved successfully''
             (JObj [(''config'', JObj kvs), (''nodeId'', JStr n)])
       \<and> (\<exists>m t. map_of (user_agents (snd (set_config life w r))) (KStr n) = Some m
                \<and> config m = JObj kvs \<and> agent_thread m = Some t
                \<and> is_alive (snd (set_config life w r)) t)"
proof -
  have acc: "set_config life w r =
      (resp_success ''Config stored and agent started''
         (JObj [(''status'', JStr ''ok''), (''nodeId'', JStr n)]),
       store_and_start life (logger INFO ''Received Configuration Data for node {}'' [JStr n] w)
         (JStr n) (KStr n) (JObj kvs))"
    using assms(1-4) by (intro set_config_accepts) simp_all
  obtain t where t: "map_of (user_agents (snd (set_config life w r))) (KStr n) =
          Some \<lparr>node_id = JStr n, config = JObj kvs, agent_thread = Some t, shutdown_event = False\<rparr>"
      "is_alive (snd (set_config life w r)) t"
    using store_and_start_agent unfolding acc snd_conv by blast
  have g: "get_config (snd (set_config life w r)) q =
           resp_success ''Configuration retrieved successfully''
             (JObj [(''config'', JObj kvs), (''nodeId'', JStr n)])"
    using assms(4,6)
    by (simp add: acc get_config_def store_and_start_configs map_of_update_same)
  show ?thesis
    using t g by (simp add: acc resp_success_def)
qed

theorem set_config_stores_invalid_credentials_witness:
  "\<not> media_credentials_ok cfg_no_secret
   \<and> status (fst (set_config None empty_world (post cfg_no_secret))) = ''success''
   \<and> get_config (snd (set_config None empty_world (post cfg_no_secret))) (query ''n1'') =
       resp_success ''Configuration retrieved successfully''
         (JObj [(''config'', cfg_no_secret), (''nodeId'', JStr ''n1'')])"
  using set_config_stores_invalid_credentials
    [of "post cfg_no_secret" _ "''n1''" "query ''n1''" None empty_world]
  by (simp add: media_credentials_ok_def required_livekit_def cfg_no_secret_def post_def
      query_def body_node_id_def py_or_def required_top_level_def request_node_id_def)

section \<open>Activation with a missing top-level key\<close>

text \<open>
  C10. When the body of an activation request is a JSON object that lacks one
  of the keys \<open>liveKit\<close>, \<open>stt\<close>, \<open>llm\<close>, \<open>tts\<close>, \<open>set_config\<close> answers with
  a failure (HTTP 400) and leaves the stored configs, the registered managers,
  the worker threads and the clock as they were: nothing is stored, stopped or
  started on this path (only log records are written).
\<close>

theorem set_config_missing_key_atomic:
  assumes "get_json r = Some (JObj kvs)"
    and "key \<in> set required_top_level"
    and "map_of kvs key = None"
  shows "status (fst (set_config life w r)) = ''failure''
       \<and> http (fst (set_config life w r)) = 400
       \<and> user_configs (snd (set_config life w r)) = user_configs w
       \<and> user_agents (snd (set_config life w r)) = user_agents w
       \<and> threads (snd (set_config life w r)) = threads w
       \<and> clock (snd (set_config life w r)) = clock w"
proof -
  have miss: "\<not> list_all (\<lambda>key. py_in key kvs) required_top_level"
    using assms(2,3) by (auto simp add: list_all_iff)
  show ?thesis
    using assms(1) miss
    by (simp add: set_config_def set_config_raised_def resp_failure_def Let_def
        split: sum.split)
qed

theorem set_config_missing_key_atomic_witness:
  "get_json r_missing \<noteq> None
   \<and> ''tts'' \<in> set required_top_level
   \<and> status (fst (set_config None empty_world r_missing)) = ''failure''
   \<and> user_configs (snd (set_config None empty_world r_missing)) = []
   \<and> user_agents (snd (set_config None empty_world r_missing)) = []
   \<and> threads (snd (set_config None empty_world r_missing)) = []"
  using set_config_missing_key_atomic [of r_missing _ "''tts''" None empty_world]
  by (simp add: r_missing_def required_top_level_def empty_world_def)

section \<open>Activation then query\<close>

lemma set_config_success_stores:
  assumes "data (fst (set_config life w r)) = Some (JObj [(''status'', JStr ''ok''), (''nodeId'', node)])"
  shows "\<exists>cfg k. get_json r = Some cfg \<and> dict_key node = Inr k \<and> truthy node
          \<and> user_configs (snd (set_config life w r)) = AList.update k cfg (user_configs w)"
  using assms
  by (auto simp add: set_config_def set_config_raised_def resp_failure_def resp_success_def
      Let_def store_and_start_configs split: option.splits json.splits sum.splits if_splits)

text \<open>
  C6. When \<open>set_config\<close> accepts a request for node \<open>n\<close> (its answer is the
  success payload naming \<open>n\<close>), a following \<open>get_config\<close> for \<open>n\<close> returns
  exactly the config of the request, the request body as it was received,
  whatever was stored for \<open>n\<close> before: the entry is replaced, not merged.
\<close>

theorem activate_then_query_roundtrip:
  assumes "get_json r = Some cfg"
    and "data (fst (set_config life w r)) =
           Some (JObj [(''status'', JStr ''ok''), (''nodeId'', JStr n)])"
    and "request_node_id q = Some n"
  shows "get_config (snd (set_config life w r)) q =
           resp_success ''Configuration retrieved successfully''
             (JObj [(''config'', cfg), (''nodeId'', JStr n)])
       \<and> map_of (user_configs (snd (set_config life w r))) (KStr n) = Some cfg"
proof -
  from set_config_success_stores [OF assms(2)] assms(1)
  have ne: "n \<noteq> []"
    and st: "user_configs (snd (set_config life w r)) = AList.update (KStr n) cfg (user_configs w)"
    by auto
  show ?thesis
    using ne assms(3) by (simp add: get_config_def st map_of_update_same)
qed

theorem activate_then_query_roundtrip_witness:
  "map_of (user_configs (snd (set_config None empty_world (post cfg_no_url)))) (KStr ''n1'')
     = Some cfg_no_url
   \<and> get_config
        (snd (set_config (Some 2) (snd (set_config None empty_world (post cfg_no_url)))
               (post cfg_valid)))
        (query ''n1'') =
       resp_success ''Configuration retrieved successfully''
         (JObj [(''config'', cfg_valid), (''nodeId'', JStr ''n1'')])"
proof -
  have a: "set_config life w (post cfg_valid) =
      (resp_success ''Config stored and agent started''
         (JObj [(''status'', JStr ''ok''), (''nodeId'', JStr ''n1'')]),
       store_and_start life (logger INFO ''Received Configuration Data for node {}'' [JStr ''n1''] w)
         (JStr ''n1'') (KStr ''n1'') cfg_valid)" for life w
    unfolding cfg_valid_def
    by (rule set_config_accepts)
       (simp_all add: post_def body_node_id_def py_or_def required_top_level_def)
  have b: "set_config life w (post cfg_no_url) =
      (resp_success ''Config stored and agent started''
         (JObj [(''status'', JStr ''ok''), (''nodeId'', JStr ''n1'')]),
       store_and_start life (logger INFO ''Received Configuration Data for node {}'' [JStr ''n1''] w)
         (JStr ''n1'') (KStr ''n1'') cfg_no_url)" for life w
    unfolding cfg_no_url_def
    by (rule set_config_accepts)
       (simp_all add: post_def body_node_id_def py_or_def required_top_level_def)
  show ?thesis
    using activate_then_query_roundtrip
      [of "post cfg_valid" cfg_valid "Some 2" "snd (set_config None empty_world (post cfg_no_url))"
          "''n1''" "query ''n1''"]
    by (simp add: a b resp_success_def store_and_start_configs map_of_update_same)
       (simp add: post_def query_def request_node_id_def)
qed

section \<open>An activated node\<close>

lemma set_config_post_valid:
  "set_config life w (post cfg_valid) =
      (resp_success ''Config stored and agent started''
         (JObj [(''status'', JStr ''ok''), (''nodeId'', JStr ''n1'')]),
       store_and_start life (logger INFO ''Received Configuration Data for node {}'' [JStr ''n1''] w)
         (JStr ''n1'') (KStr ''n1'') cfg_valid)"
  unfolding cfg_valid_def
  by (rule set_config_accepts)
     (simp_all add: post_def body_node_id_def py_or_def required_top_level_def)

lemma activated_world:
  "snd (set_config None empty_world (post cfg_valid)) =
     \<lparr>user_configs = [(KStr ''n1'', cfg_valid)],
      user_agents = [(KStr ''n1'', \<lparr>node_id = JStr ''n1'', config = cfg_valid,
                                    agent_thread = Some 0, shutdown_event = False\<rparr>)],
      threads = [\<lparr>thread_name = JStr ''n1'', alive = True\<rparr>],
      logs = [Log INFO ''Received Configuration Data for node {}'' [JStr ''n1''],
              Log INFO ''LiveKit agent started for node {}'' [JStr ''n1'']],
      clock = 0\<rparr>"
  by (simp add: set_config_post_valid store_and_start_eq Let_def spawn_def logger_def
      empty_world_def UserAgentManager_def)

section \<open>Token issuance\<close>

lemma livekit_without_url:
  assumes "map_of (user_configs w) (KStr n) = Some (JObj kvs)"
    and "map_of kvs ''liveKit'' = Some (JObj lk)"
    and "map_of lk ''apiKey'' = Some (JStr k)" and "k \<noteq> []"
    and "map_of lk ''secret'' = Some (JStr s)" and "s \<noteq> []"
    and "map_of lk ''serverUrl'' = Some u"
  shows "get_livekit_config_for_node w n = (JStr k, JStr s, u)"
  using assms by (simp add: get_livekit_config_for_node_def)

text \<open>
  C9. \<open>get_token\<close> tests the stored API key and secret only. For a node whose
  stored config has a non-empty \<open>apiKey\<close> and \<open>secret\<close> and an empty
  \<open>serverUrl\<close> (so the media-credential invariant fails), and with a library
  that issues tokens for these credentials, \<open>get_token\<close> reports success and
  the \<open>serverUrl\<close> field of the token data is the empty string. Node
  \<open>n1\<close> with the config \<open>cfg_no_url\<close> is such a node.
\<close>

theorem get_token_needs_no_server_url:
  assumes "map_of (user_configs w) (KStr n) = Some (JObj kvs)"
    and "map_of kvs ''liveKit'' = Some (JObj lk)"
    and "map_of lk ''apiKey'' = Some (JStr k)" and "k \<noteq> []"
    and "map_of lk ''secret'' = Some (JStr s)" and "s \<noteq> []"
    and "map_of lk ''serverUrl'' = Some (JStr [])"
    and "request_node_id q = Some n" and "n \<noteq> []"
    and "\<And>name room. \<exists>tok. jwt (JStr k) (JStr s) name room = Inr tok"
  shows "\<not> media_credentials_ok (JObj kvs)
       \<and> status (get_token jwt uuid w q) = ''success''
       \<and> http (get_token jwt uuid w q) = 200
       \<and> (\<exists>tok room. data (get_token jwt uuid w q) =
             Some (JObj [(''token'', JStr tok), (''room'', JStr room),
                         (''serverUrl'', JStr []), (''nodeId'', JStr n)]))"
proof -
  have inv: "\<not> media_credentials_ok (JObj kvs)"
    using assms(2,3,4,5,6,7) by (simp add: media_credentials_ok_def required_livekit_def)
  have kvs: "kvs \<noteq> []" using assms(2) by auto
  have lk: "get_livekit_config_for_node w n = (JStr k, JStr s, JStr [])"
    using assms(1-7) by (rule livekit_without_url)
  obtain tok where tok: "jwt (JStr k) (JStr s) (token_name q n) (token_room uuid q n) = Inr tok"
    using assms(10) by blast
  have "get_token jwt uuid w q =
          resp_success ''Token generated successfully''
            (JObj [(''token'', JStr tok), (''room'', JStr (token_room uuid q n)),
                   (''serverUrl'', JStr []), (''nodeId'', JStr n)])"
    using assms(1,4,6,8,9) kvs tok
    by (simp add: get_token_def lk Let_def)
  then show ?thesis using inv by (simp add: resp_success_def)
qed

theorem get_token_needs_no_server_url_witness:
  "map_of (user_configs (snd (set_config None empty_world (post cfg_no_url)))) (KStr ''n1'')
     = Some cfg_no_url
   \<and> \<not> media_credentials_ok cfg_no_url
   \<and> get_token jwt_stub ''0f8fad5b-d9cb-469f-a165-70867728950e''
        (snd (set_config None empty_world (post cfg_no_url))) (query ''n1'') =
       resp_success ''Token generated successfully''
         (JObj [(''token'', JStr ''key.user-n1.room-n1-0f8fad5b''), (''room'', JStr ''room-n1-0f8fad5b''),
                (''serverUrl'', JStr []), (''nodeId'', JStr ''n1'')])"
proof -
  have b: "set_config None empty_world (post cfg_no_url) =
      (resp_success ''Config stored and agent started''
         (JObj [(''status'', JStr ''ok''), (''nodeId'', JStr ''n1'')]),
       store_and_start None (logger INFO ''Received Configuration Data for node {}'' [JStr ''n1''] empty_world)
         (JStr ''n1'') (KStr ''n1'') cfg_no_url)"
    unfolding cfg_no_url_def
    by (rule set_config_accepts)
       (simp_all add: post_def body_node_id_def py_or_def required_top_level_def)
  have st: "map_of (user_configs (snd (set_config None empty_world (post cfg_no_url)))) (KStr ''n1'')
     = Some cfg_no_url"
    by (simp add: b store_and_start_configs map_of_update_same)
  have q: "request_node_id (query ''n1'') = Some ''n1''"
    by (simp add: query_def request_node_id_def)
  have j: "\<exists>tok. jwt_stub (JStr ''key'') (JStr ''s3'') name room = Inr tok" for name room
    by (simp add: jwt_stub_def)
  have tk: "get_token jwt_stub ''0f8fad5b-d9cb-469f-a165-70867728950e''
        (snd (set_config None empty_world (post cfg_no_url))) (query ''n1'') =
       resp_success ''Token generated successfully''
         (JObj [(''token'', JStr ''key.user-n1.room-n1-0f8fad5b''), (''room'', JStr ''room-n1-0f8fad5b''),
                (''serverUrl'', JStr []), (''nodeId'', JStr ''n1'')])"
    using st
    by (simp add: get_token_def q get_livekit_config_for_node_def cfg_no_url_def Let_def
        jwt_stub_def token_name_def token_room_def) (simp add: query_def)
  show ?thesis
    using get_token_needs_no_server_url
      [OF st [unfolded cfg_no_url_def], of _ "''key''" "''s3''" "query ''n1''" jwt_stub
        "''0f8fad5b-d9cb-469f-a165-70867728950e''"] q j st tk
    by (simp add: cfg_no_url_def)
qed

section \<open>Threads under stop\<close>

lemma stop_agent_threads:
  "threads (fst (stop_agent life w m)) =
     (case agent_thread m of
        None \<Rightarrow> threads w
      | Some t \<Rightarrow> if is_alive w t \<and> join_ended 5 life
                  then (threads w)[t := (threads w ! t)\<lparr>alive := False\<rparr>]
                  else threads w)"
  by (auto simp add: stop_agent_def Let_def thread_exit_def is_alive_def split: option.split)

lemma stop_agent_length [simp]:
  "length (threads (fst (stop_agent life w m))) = length (threads w)"
  by (simp add: stop_agent_threads split: option.split)



lemma stop_agent_graceful:
  "join_ended 5 life \<Longrightarrow> agent_thread m = Some t \<Longrightarrow> t < length (threads w) \<Longrightarrow>
   \<not> alive (threads (fst (stop_agent life w m)) ! t)"
  by (simp add: stop_agent_threads is_alive_def)

section \<open>Stopping a worker\<close>

lemma w_n1_activated: "snd (set_config None empty_world (post cfg_valid)) = w_n1"
  by (simp add: activated_world w_n1_def m_n1_def)

text \<open>
  C4, as stated, fails for a handle whose unit is not alive. \<open>stop_agent\<close>
  sets the shutdown event only inside its test that the thread exists and is
  alive: once the worker thread of node \<open>n1\<close> has ended by itself, stopping
  its manager changes nothing and the event stays clear.
\<close>

theorem stop_agent_ended_unit_raises_no_signal:
  "map_of (user_agents (thread_exit 0 w_n1)) (KStr ''n1'') = Some m_n1
   \<and> stop_agent (Some 1) (thread_exit 0 w_n1) m_n1 = (thread_exit 0 w_n1, m_n1)
   \<and> \<not> shutdown_event (snd (stop_agent (Some 1) (thread_exit 0 w_n1) m_n1))"
  by (simp add: w_n1_def m_n1_def thread_exit_def stop_agent_def is_alive_def)

text \<open>
  C4, amended. For every worker handle whose unit is alive, \<open>stop_agent\<close>
  sets the handle's shutdown event and then returns after at most the five
  seconds of its join (the clock advances by at most 5; scheduling overhead is
  not modelled); a unit still alive at the deadline is reported by a warning
  that it did not stop gracefully and stays alive: it is alive afterwards
  exactly when it did not end by itself within the join. For a handle without
  a live unit \<open>stop_agent\<close> is a no-op that does not set the event. No other
  thread is ended.
\<close>

theorem stop_agent_cooperative_bounded:
  "clock (fst (stop_agent life w m)) \<le> clock w + 5
   \<and> (agent_thread m = Some t \<and> is_alive w t \<longrightarrow>
        shutdown_event (snd (stop_agent life w m))
        \<and> is_alive (fst (stop_agent life w m)) t = (\<not> join_ended 5 life)
        \<and> (is_alive (fst (stop_agent life w m)) t \<longrightarrow>
             logs (fst (stop_agent life w m)) =
               logs w @ [Log INFO ''Stopping LiveKit agent for node {}'' [node_id m],
                         Log WARNING ''Agent thread for {} did not stop gracefully'' [node_id m]]))
   \<and> (agent_thread m = None \<or> (agent_thread m = Some t \<and> \<not> is_alive w t) \<longrightarrow>
        stop_agent life w m = (w, m))
   \<and> (is_alive w t' \<and> agent_thread m \<noteq> Some t' \<longrightarrow> is_alive (fst (stop_agent life w m)) t')"
proof -
  have a: "clock (fst (stop_agent life w m)) \<le> clock w + 5"
    by (cases life) (simp_all add: stop_agent_def Let_def split: option.split)
  have b: "shutdown_event (snd (stop_agent life w m))
        \<and> is_alive (fst (stop_agent life w m)) t = (\<not> join_ended 5 life)
        \<and> (is_alive (fst (stop_agent life w m)) t \<longrightarrow>
             logs (fst (stop_agent life w m)) =
               logs w @ [Log INFO ''Stopping LiveKit agent for node {}'' [node_id m],
                         Log WARNING ''Agent thread for {} did not stop gracefully'' [node_id m]])"
    if "agent_thread m = Some t" "is_alive w t"
    using that
    by (simp add: stop_agent_def Let_def)
       (simp add: is_alive_def thread_exit_def)
  have c: "stop_agent life w m = (w, m)"
    if "agent_thread m = None \<or> (agent_thread m = Some t \<and> \<not> is_alive w t)"
    using that by (auto simp add: stop_agent_def)
  have d: "is_alive (fst (stop_agent life w m)) t'"
    if "is_alive w t'" "agent_thread m \<noteq> Some t'"
    using that
    by (auto simp add: is_alive_def stop_agent_threads nth_list_update split: option.split)
  show ?thesis using a b c d by blast
qed

theorem stop_agent_cooperative_bounded_witness:
  "agent_thread m_n1 = Some 0 \<and> is_alive w_n1 0
   \<and> shutdown_event (snd (stop_agent None w_n1 m_n1))
   \<and> clock (fst (stop_agent None w_n1 m_n1)) \<le> 5
   \<and> is_alive (fst (stop_agent None w_n1 m_n1)) 0
   \<and> last (logs (fst (stop_agent None w_n1 m_n1))) =
       Log WARNING ''Agent thread for {} did not stop gracefully'' [JStr ''n1'']
   \<and> \<not> is_alive (fst (stop_agent (Some 2) w_n1 m_n1)) 0
   \<and> stop_agent None (thread_exit 0 w_n1) m_n1 = (thread_exit 0 w_n1, m_n1)"
proof -
  have h: "agent_thread m_n1 = Some 0" "is_alive w_n1 0" "\<not> is_alive (thread_exit 0 w_n1) 0"
    by (simp_all add: m_n1_def w_n1_def is_alive_def thread_exit_def)
  have c: "clock w_n1 = 0" "node_id m_n1 = JStr ''n1''" by (simp_all add: w_n1_def m_n1_def)
  show ?thesis
    using stop_agent_cooperative_bounded [of None w_n1 m_n1 0 0]
      stop_agent_cooperative_bounded [of "Some 2" w_n1 m_n1 0 0]
      stop_agent_cooperative_bounded [of None "thread_exit 0 w_n1" m_n1 0 0] h
    by (simp add: c)
qed

section \<open>Awaiting a valid config\<close>

lemma sleeps_append [simp]: "sleeps (xs @ ys) = sleeps xs @ sleeps ys"
  by (induction xs rule: sleeps.induct) simp_all

lemma all_livekit_obj:
  "all_livekit cfg ks = Inr True \<Longrightarrow> ks \<noteq> [] \<Longrightarrow>
   \<exists>kvs lk. cfg = JObj kvs \<and> py_get cfg ''liveKit'' (JObj []) = Inr (JObj lk)
           \<and> (\<forall>k \<in> set ks. \<exists>v. map_of lk k = Some v \<and> truthy v)"
proof (induction ks)
  case Nil
  then show ?case by simp
next
  case (Cons k ks)
  from Cons.prems(1) obtain kvs where cfg: "cfg = JObj kvs"
    by (cases cfg) (simp_all)
  from Cons.prems(1) cfg obtain lk where lk: "py_get cfg ''liveKit'' (JObj []) = Inr (JObj lk)"
    by (cases "case map_of kvs ''liveKit'' of None \<Rightarrow> JObj [] | Some v \<Rightarrow> v") simp_all
  from Cons.prems(1) lk have v: "\<exists>v. map_of lk k = Some v \<and> truthy v"
    and rest: "all_livekit cfg ks = Inr True"
    by (auto split: option.splits if_splits)
  show ?case
  proof (cases "ks = []")
    case True
    then show ?thesis using cfg lk v by auto
  next
    case False
    from Cons.IH [OF rest False] lk v cfg show ?thesis by auto
  qed
qed

lemma valid_worker_options:
  assumes "media_credentials_ok cfg"
  shows "\<exists>opts. WorkerOptions cfg = Inr opts \<and> truthy (api_key opts)
           \<and> truthy (api_secret opts) \<and> truthy (ws_url opts)"
proof -
  from assms all_livekit_obj [of cfg required_livekit]
  obtain kvs lk where "cfg = JObj kvs" "py_get cfg ''liveKit'' (JObj []) = Inr (JObj lk)"
    "\<forall>k \<in> set required_livekit. \<exists>v. map_of lk k = Some v \<and> truthy v"
    by (auto simp add: media_credentials_ok_def required_livekit_def)
  then show ?thesis
    by (auto simp add: WorkerOptions_def required_livekit_def)
qed

lemma attempt_valid:
  assumes "media_credentials_ok cfg"
  shows "\<exists>opts. WorkerOptions cfg = Inr opts \<and> attempt node cfg = (Some opts, [])"
  using valid_worker_options [OF assms] assms
  by (auto simp add: attempt_def validate_config_def media_credentials_ok_def)

lemma attempt_invalid:
  assumes "\<not> media_credentials_ok cfg"
  shows "\<exists>evs. attempt node cfg = (None, evs) \<and> sleeps evs = [5]"
  using assms
  by (auto simp add: attempt_def validate_config_def media_credentials_ok_def
      split: sum.split)

lemma attempt_Some:
  "attempt node cfg = (Some opts, evs) \<Longrightarrow> media_credentials_ok cfg \<and> WorkerOptions cfg = Inr opts"
  by (auto simp add: attempt_def validate_config_def media_credentials_ok_def
      split: sum.splits if_splits)

lemma create_worker_options_waits:
  assumes "\<And>l. i \<le> l \<Longrightarrow> l < j \<Longrightarrow> \<not> fst (obs l) \<and> \<not> media_credentials_ok (snd (obs l))"
    and "i \<le> j"
  shows "\<exists>evs. sleeps evs = replicate (j - i) 5
        \<and> create_worker_options node obs i tr = create_worker_options node obs j (tr @ evs)"
  using assms
proof (induction "j - i" arbitrary: i tr)
  case 0
  then have "i = j" by simp
  then show ?case by (intro exI [of _ "[]"]) simp
next
  case (Suc d)
  then have lt: "i < j" by simp
  from Suc.prems(1) [of i] lt
  have p: "\<not> fst (obs i)" "\<not> media_credentials_ok (snd (obs i))" by simp_all
  from attempt_invalid [OF p(2), of node] obtain evs
    where evs: "attempt node (snd (obs i)) = (None, evs)" "sleeps evs = [5]" by blast
  have step: "create_worker_options node obs i tr = create_worker_options node obs (Suc i) (tr @ evs)"
    using p(1) evs(1) by (subst create_worker_options.simps) simp
  have "\<exists>evs'. sleeps evs' = replicate (j - Suc i) 5
        \<and> create_worker_options node obs (Suc i) (tr @ evs)
            = create_worker_options node obs j ((tr @ evs) @ evs')"
    using Suc.hyps(2) Suc.prems lt by (intro Suc.hyps(1)) simp_all
  then obtain evs' where e': "sleeps evs' = replicate (j - Suc i) 5"
    "create_worker_options node obs (Suc i) (tr @ evs)
       = create_worker_options node obs j ((tr @ evs) @ evs')" by blast
  have "sleeps (evs @ evs') = replicate (j - i) 5"
    using evs(2) e'(1) lt by (simp add: Suc_diff_Suc flip: replicate_Suc)
  then show ?case using step e'(2) by (intro exI [of _ "evs @ evs'"]) simp
qed

lemma media_credentials_ok_strings:
  assumes "map_of kvs ''liveKit'' = Some (JObj lk)"
    and "map_of lk ''apiKey'' = Some (JStr a)"
    and "map_of lk ''secret'' = Some (JStr s)"
    and "map_of lk ''serverUrl'' = Some (JStr u)"
  shows "media_credentials_ok (JObj kvs) = (a \<noteq> [] \<and> s \<noteq> [] \<and> u \<noteq> [])"
  using assms by (simp add: media_credentials_ok_def required_livekit_def)

lemma create_worker_options_sound:
  assumes "create_worker_options node obs i tr = Some y"
  shows "\<forall>opts tr'. y = (Some opts, tr') \<longrightarrow>
      (\<exists>l\<ge>i. \<not> fst (obs l) \<and> media_credentials_ok (snd (obs l))
            \<and> WorkerOptions (snd (obs l)) = Inr opts)"
proof (rule create_worker_options.raw_induct
    [where P = "\<lambda>node obs i tr y. \<forall>opts tr'. y = (Some opts, tr') \<longrightarrow>
      (\<exists>l\<ge>i. \<not> fst (obs l) \<and> media_credentials_ok (snd (obs l))
            \<and> WorkerOptions (snd (obs l)) = Inr opts)", OF _ assms], goal_cases)
  case (1 cwo node obs i tr y)
  show ?case
  proof (cases "fst (obs i)")
    case True
    with 1(2) show ?thesis by auto
  next
    case False
    obtain r evs where a: "attempt node (snd (obs i)) = (r, evs)"
      by (cases "attempt node (snd (obs i))")
    show ?thesis
    proof (cases r)
      case None
      with 1(2) False a have eq: "cwo node obs (Suc i) (tr @ evs) = Some y" by simp
      have "\<forall>opts tr'. y = (Some opts, tr') \<longrightarrow>
          (\<exists>l\<ge>Suc i. \<not> fst (obs l) \<and> media_credentials_ok (snd (obs l))
            \<and> WorkerOptions (snd (obs l)) = Inr opts)"
        by (rule 1(1) [OF eq])
      then show ?thesis by (auto dest: Suc_leD)
    next
      case (Some opts)
      with 1(2) False a have y: "y = (Some opts, tr @ evs)" by simp
      from attempt_Some a Some
      have "media_credentials_ok (snd (obs i)) \<and> WorkerOptions (snd (obs i)) = Inr opts" by blast
      with y False show ?thesis by auto
    qed
  qed
qed

text \<open>
  C5. Let the loop of \<open>create_worker_options\<close> start at observation \<open>i\<close>, and
  let \<open>j\<close> be the first observation at which the shutdown event is set or the
  config satisfies the media-credential invariant (\<open>media_credentials_ok\<close>, the
  test of \<^verbatim>\<open>_validate_config\<close>; for string credentials it says that none is
  empty, \<open>media_credentials_ok_strings\<close>). Then the loop returns: with no
  worker options when the event is set at \<open>j\<close>, with the options built from
  the config observed at \<open>j\<close> when that config is valid; and before that it
  slept five seconds once for each invalid observation. Conversely, whenever
  the loop returns worker options, it observed a valid config with the event
  clear and the options are built from it.
\<close>

theorem create_worker_options_awaits_valid_config:
  assumes "\<forall>l. i \<le> l \<and> l < j \<longrightarrow> \<not> fst (obs l) \<and> \<not> media_credentials_ok (snd (obs l))"
    and "i \<le> j"
  shows "(fst (obs j) \<longrightarrow>
           (\<exists>tr'. create_worker_options node obs i tr = Some (None, tr')
                 \<and> sleeps tr' = sleeps tr @ replicate (j - i) 5))
       \<and> (\<not> fst (obs j) \<and> media_credentials_ok (snd (obs j)) \<longrightarrow>
           (\<exists>opts tr'. create_worker_options node obs i tr = Some (Some opts, tr')
                 \<and> WorkerOptions (snd (obs j)) = Inr opts
                 \<and> sleeps tr' = sleeps tr @ replicate (j - i) 5))
       \<and> (\<forall>opts tr'. create_worker_options node obs i tr = Some (Some opts, tr') \<longrightarrow>
           (\<exists>l\<ge>i. \<not> fst (obs l) \<and> media_credentials_ok (snd (obs l))
                 \<and> WorkerOptions (snd (obs l)) = Inr opts))"
proof -
  from create_worker_options_waits [of i j obs node tr] assms
  obtain evs where w: "sleeps evs = replicate (j - i) 5"
    "create_worker_options node obs i tr = create_worker_options node obs j (tr @ evs)"
    by blast
  have a: "\<exists>tr'. create_worker_options node obs i tr = Some (None, tr')
                 \<and> sleeps tr' = sleeps tr @ replicate (j - i) 5" if "fst (obs j)"
    using that w by (subst w(2), subst create_worker_options.simps) simp
  have b: "\<exists>opts tr'. create_worker_options node obs i tr = Some (Some opts, tr')
                 \<and> WorkerOptions (snd (obs j)) = Inr opts
                 \<and> sleeps tr' = sleeps tr @ replicate (j - i) 5"
    if "\<not> fst (obs j)" "media_credentials_ok (snd (obs j))"
  proof -
    from attempt_valid [OF that(2), of node] obtain opts
      where o: "WorkerOptions (snd (obs j)) = Inr opts" "attempt node (snd (obs j)) = (Some opts, [])"
      by blast
    have "create_worker_options node obs i tr = Some (Some opts, tr @ evs)"
      using that(1) o(2) by (subst w(2), subst create_worker_options.simps) simp
    then show ?thesis using o(1) w(1) by simp
  qed
  have c: "\<exists>l\<ge>i. \<not> fst (obs l) \<and> media_credentials_ok (snd (obs l))
                 \<and> WorkerOptions (snd (obs l)) = Inr opts"
    if "create_worker_options node obs i tr = Some (Some opts, tr')" for opts tr'
    using create_worker_options_sound [OF that] by simp
  show ?thesis using a b c by blast
qed

theorem create_worker_options_awaits_valid_config_witness:
  "\<not> media_credentials_ok cfg_no_secret \<and> media_credentials_ok cfg_valid
   \<and> (\<exists>tr'. create_worker_options (JStr ''n1'') obs_late 0 [] =
          Some (Some \<lparr>api_key = JStr ''key'', api_secret = JStr ''s3'', ws_url = JStr ''wss://lk''\<rparr>, tr')
        \<and> sleeps tr' = [5, 5])
   \<and> (\<exists>tr'. create_worker_options (JStr ''n1'') obs_cancel 0 [] = Some (None, tr')
        \<and> sleeps tr' = [5])"
proof -
  have inv: "\<not> media_credentials_ok cfg_no_secret" "media_credentials_ok cfg_valid"
    by (simp_all add: media_credentials_ok_def required_livekit_def cfg_no_secret_def cfg_valid_def)
  have wo: "WorkerOptions cfg_valid =
      Inr \<lparr>api_key = JStr ''key'', api_secret = JStr ''s3'', ws_url = JStr ''wss://lk''\<rparr>"
    by (simp add: WorkerOptions_def cfg_valid_def)
  have r2: "replicate 2 (5::nat) = [5, 5]" by (simp add: numeral_2_eq_2)
  have l2: "l < 2 \<longleftrightarrow> l = 0 \<or> l = 1" for l :: nat by auto
  show ?thesis
    using create_worker_options_awaits_valid_config [of 0 2 obs_late "JStr ''n1''" "[]"]
      create_worker_options_awaits_valid_config [of 0 1 obs_cancel "JStr ''n1''" "[]"] inv
    by (simp add: obs_late_def obs_cancel_def wo r2)
qed

section \<open>Provider initialization\<close>

lemma providers_plugin:
  assumes "map_of (providers cap) x = Some pl"
  shows "pl \<in> {''deepgram'', ''azure'', ''openai'', ''anthropic'', ''elevenlabs'', ''google''}"
proof (cases cap)
  case STT
  with assms show ?thesis by (simp split: if_splits)
next
  case LLM
  with assms show ?thesis by (simp split: if_splits)
next
  case TTS
  with assms show ?thesis by (simp split: if_splits)
qed

lemma lower_plugin_names:
  "lower ''deepgram'' = ''deepgram''" "lower ''azure'' = ''azure''" "lower ''openai'' = ''openai''"
  "lower ''anthropic'' = ''anthropic''" "lower ''elevenlabs'' = ''elevenlabs''"
  "lower ''google'' = ''google''"
  by (simp_all add: lower_def lower_char_def)


lemma plugin_entry:
  assumes "pl \<in> {''deepgram'', ''azure'', ''openai'', ''anthropic'', ''elevenlabs'', ''google''}"
  shows "map_of (OPTIONAL_PLUGINS imported) pl = Some (if imported pl then Some pl else None)"
  using assms unfolding OPTIONAL_PLUGINS_def map_of_map_restrict
  by (simp add: restrict_map_def)

lemma lower_plugin:
  assumes "pl \<in> {''deepgram'', ''azure'', ''openai'', ''anthropic'', ''elevenlabs'', ''google''}"
  shows "lower pl = pl"
  using assms lower_plugin_names by blast

lemma get_plugin_known:
  assumes "pl \<in> {''deepgram'', ''azure'', ''openai'', ''anthropic'', ''elevenlabs'', ''google''}"
  shows "get_plugin imported pl =
           (if imported pl then (Some pl, [])
            else (None, [Log WARNING ''Plugin {} is not available'' [JStr pl]]))"
  unfolding get_plugin_def lower_plugin [OF assms] plugin_entry [OF assms]
  by simp

lemma get_plugin_provider:
  "map_of (providers cap) x = Some pl \<Longrightarrow>
   get_plugin imported pl =
     (if imported pl then (Some pl, [])
      else (None, [Log WARNING ''Plugin {} is not available'' [JStr pl]]))"
  by (rule get_plugin_known) (rule providers_plugin)

lemma set_adapter_fields [simp]:
  "assistant_config (set_adapter cap x a) = assistant_config a"
  "assistant_node_id (set_adapter cap x a) = assistant_node_id a"
  "adapter_of cap (set_adapter cap x a) = Some x"
  by (cases cap; simp)+

lemma initialize_provider_eq:
  assumes sc: "py_get (assistant_config a) (section_of cap) (JObj []) = Inr (JObj sc)"
    and p: "(case map_of sc ''provider'' of None \<Rightarrow> JStr ''groq'' | Some v \<Rightarrow> v) = JStr p"
  defines "key \<equiv> (case map_of sc ''apiKey'' of None \<Rightarrow> JStr [] | Some v \<Rightarrow> v)"
    and "info \<equiv> Log INFO (''Initializing '' @ capability_name cap @ '' with provider: {} for node {}'')
                   [JStr (lower p), assistant_node_id a]"
  shows "initialize_provider imported cap a =
     Inr (if lower p = ''groq'' then (set_adapter cap (Adapter cap ''groq'' key) a, [info])
          else
            (case map_of (providers cap) (lower p) of
               Some pl \<Rightarrow>
                 if imported pl then (set_adapter cap (Adapter cap pl key) a, [info])
                 else (a, [info, Log WARNING ''Plugin {} is not available'' [JStr pl]])
             | None \<Rightarrow>
                 (set_adapter cap (Adapter cap ''groq'' key) a,
                  [info,
                   Log WARNING (''Unsupported '' @ capability_name cap
                                  @ '' provider: {}, defaulting to groq for node {}'')
                     [JStr (lower p), assistant_node_id a]])))"
proof (cases "map_of (providers cap) (lower p)")
  case None
  then show ?thesis
    unfolding initialize_provider_def sc key_def info_def
    using p by (simp add: Let_def)
next
  case (Some pl)
  note gp = get_plugin_provider [OF Some, of imported]
  show ?thesis
    unfolding initialize_provider_def sc key_def info_def
    using p Some by (simp add: Let_def gp)
qed

lemma set_adapter_other:
  "c \<noteq> cap \<Longrightarrow> adapter_of c (set_adapter cap x a) = adapter_of c a"
  by (cases cap; cases c; simp)

lemma initialize_provider_step:
  assumes sc: "py_get (assistant_config a) (section_of cap) (JObj []) = Inr (JObj sc)"
    and p: "py_get (JObj sc) ''provider'' (JStr ''groq'') = Inr (JStr p)"
    and key: "py_get (JObj sc) ''apiKey'' (JStr []) = Inr key"
  obtains a' evs where "initialize_provider imported cap a = Inr (a', evs)"
    and "assistant_config a' = assistant_config a"
    and "assistant_node_id a' = assistant_node_id a"
    and "\<And>c. c \<noteq> cap \<Longrightarrow> adapter_of c a' = adapter_of c a"
    and "lower p \<noteq> ''groq'' \<Longrightarrow> map_of (providers cap) (lower p) = None \<Longrightarrow>
           adapter_of cap a' = Some (Adapter cap ''groq'' key)
           \<and> Log WARNING (''Unsupported '' @ capability_name cap
                           @ '' provider: {}, defaulting to groq for node {}'')
                 [JStr (lower p), assistant_node_id a] \<in> set evs"
    and "\<And>pl. lower p \<noteq> ''groq'' \<Longrightarrow> map_of (providers cap) (lower p) = Some pl \<Longrightarrow>
           \<not> imported pl \<Longrightarrow>
           adapter_of cap a' = adapter_of cap a
           \<and> Log WARNING ''Plugin {} is not available'' [JStr pl] \<in> set evs"
proof -
  have p': "(case map_of sc ''provider'' of None \<Rightarrow> JStr ''groq'' | Some v \<Rightarrow> v) = JStr p"
    using p by simp
  have k': "(case map_of sc ''apiKey'' of None \<Rightarrow> JStr [] | Some v \<Rightarrow> v) = key"
    using key by simp
  let ?info = "Log INFO (''Initializing '' @ capability_name cap @ '' with provider: {} for node {}'')
                   [JStr (lower p), assistant_node_id a]"
  let ?unsupported = "Log WARNING (''Unsupported '' @ capability_name cap
                           @ '' provider: {}, defaulting to groq for node {}'')
                 [JStr (lower p), assistant_node_id a]"
  note eq = initialize_provider_eq [OF sc p', of imported, unfolded k']
  show thesis
  proof (cases "lower p = ''groq''")
    case True
    show thesis
      by (rule that [of "set_adapter cap (Adapter cap ''groq'' key) a" "[?info]"])
         (simp_all add: eq True set_adapter_other)
  next
    case False
    show thesis
    proof (cases "map_of (providers cap) (lower p)")
      case None
      show thesis
        by (rule that [of "set_adapter cap (Adapter cap ''groq'' key) a" "[?info, ?unsupported]"])
           (simp_all add: eq False None set_adapter_other)
    next
      case (Some pl)
      show thesis
      proof (cases "imported pl")
        case True
        show thesis
          by (rule that [of "set_adapter cap (Adapter cap pl key) a" "[?info]"])
             (simp_all add: eq False Some True set_adapter_other)
      next
        case nimp: False
        show thesis
          by (rule that [of a "[?info, Log WARNING ''Plugin {} is not available'' [JStr pl]]"])
             (simp_all add: eq False Some nimp)
      qed
    qed
  qed
qed

lemma media_credentials_truthy: "media_credentials_ok cfg \<Longrightarrow> truthy cfg"
  by (cases cfg) (auto simp add: media_credentials_ok_def required_livekit_def)

text \<open>
  C8. Take a fresh \<open>VoiceAssistant\<close> whose config has valid LiveKit
  credentials and whose \<open>stt\<close>, \<open>llm\<close> and \<open>tts\<close> entries are objects (or
  absent) with a string provider. For each of the three capabilities, when
  the lower-cased provider key is not \<open>groq\<close>: a key that is none of the
  capability's supported providers gives the groq adapter and a logged
  warning; a supported provider whose plugin was not imported at process start
  leaves the adapter unset (\<^verbatim>\<open>None\<close>) and logs the warning of \<open>get_plugin\<close>.
  In both cases \<open>initialize\<close> is not aborted: it returns \<^verbatim>\<open>True\<close>.
\<close>

theorem initialize_falls_back_and_skips:
  assumes ok: "media_credentials_ok cfg"
    and wf: "\<forall>c. \<exists>sc p key. py_get cfg (section_of c) (JObj []) = Inr (JObj sc)
                  \<and> py_get (JObj sc) ''provider'' (JStr ''groq'') = Inr (JStr p)
                  \<and> py_get (JObj sc) ''apiKey'' (JStr []) = Inr key"
    and sc: "py_get cfg (section_of cap) (JObj []) = Inr (JObj sc)"
    and p: "py_get (JObj sc) ''provider'' (JStr ''groq'') = Inr (JStr p)"
    and key: "py_get (JObj sc) ''apiKey'' (JStr []) = Inr key"
    and ng: "lower p \<noteq> ''groq''"
  shows "fst (initialize imported (VoiceAssistant cfg node)) = True
       \<and> (map_of (providers cap) (lower p) = None \<longrightarrow>
            adapter_of cap (fst (snd (initialize imported (VoiceAssistant cfg node))))
              = Some (Adapter cap ''groq'' key)
            \<and> Log WARNING (''Unsupported '' @ capability_name cap
                            @ '' provider: {}, defaulting to groq for node {}'')
                  [JStr (lower p), node]
                \<in> set (snd (snd (initialize imported (VoiceAssistant cfg node)))))
       \<and> (\<forall>pl. map_of (providers cap) (lower p) = Some pl \<and> \<not> imported pl \<longrightarrow>
            adapter_of cap (fst (snd (initialize imported (VoiceAssistant cfg node)))) = None
            \<and> Log WARNING ''Plugin {} is not available'' [JStr pl]
                \<in> set (snd (snd (initialize imported (VoiceAssistant cfg node)))))"
proof -
  define a0 where "a0 = VoiceAssistant cfg node"
  have c0: "assistant_config a0 = cfg" "assistant_node_id a0 = node"
    and n0: "adapter_of c a0 = None" for c
    using media_credentials_truthy [OF ok]
    by (cases c; simp add: a0_def VoiceAssistant_def py_or_def)+
  have sec: "\<exists>sc p key. py_get cfg (section_of c) (JObj []) = Inr (JObj sc)
                  \<and> py_get (JObj sc) ''provider'' (JStr ''groq'') = Inr (JStr p)
                  \<and> py_get (JObj sc) ''apiKey'' (JStr []) = Inr key" for c
    using wf by blast
  from sec [of STT] obtain sc1 p1 k1 where s1:
    "py_get cfg (section_of STT) (JObj []) = Inr (JObj sc1)"
    "py_get (JObj sc1) ''provider'' (JStr ''groq'') = Inr (JStr p1)"
    "py_get (JObj sc1) ''apiKey'' (JStr []) = Inr k1" by blast
  from sec [of LLM] obtain sc2 p2 k2 where s2:
    "py_get cfg (section_of LLM) (JObj []) = Inr (JObj sc2)"
    "py_get (JObj sc2) ''provider'' (JStr ''groq'') = Inr (JStr p2)"
    "py_get (JObj sc2) ''apiKey'' (JStr []) = Inr k2" by blast
  from sec [of TTS] obtain sc3 p3 k3 where s3:
    "py_get cfg (section_of TTS) (JObj []) = Inr (JObj sc3)"
    "py_get (JObj sc3) ''provider'' (JStr ''groq'') = Inr (JStr p3)"
    "py_get (JObj sc3) ''apiKey'' (JStr []) = Inr k3" by blast
  obtain a1 e1 where i1: "initialize_provider imported STT a0 = Inr (a1, e1)"
    and f1: "assistant_config a1 = cfg" "assistant_node_id a1 = node"
      "\<And>c. c \<noteq> STT \<Longrightarrow> adapter_of c a1 = adapter_of c a0"
    and u1: "lower p1 \<noteq> ''groq'' \<Longrightarrow> map_of (providers STT) (lower p1) = None \<Longrightarrow>
           adapter_of STT a1 = Some (Adapter STT ''groq'' k1)
           \<and> Log WARNING (''Unsupported '' @ capability_name STT
                           @ '' provider: {}, defaulting to groq for node {}'')
                 [JStr (lower p1), node] \<in> set e1"
    and m1: "\<And>pl. lower p1 \<noteq> ''groq'' \<Longrightarrow> map_of (providers STT) (lower p1) = Some pl \<Longrightarrow>
           \<not> imported pl \<Longrightarrow>
           adapter_of STT a1 = adapter_of STT a0
           \<and> Log WARNING ''Plugin {} is not available'' [JStr pl] \<in> set e1"
    using initialize_provider_step [of a0 STT sc1 p1 k1 imported] s1 c0 by metis
  obtain a2 e2 where i2: "initialize_provider imported LLM a1 = Inr (a2, e2)"
    and f2: "assistant_config a2 = cfg" "assistant_node_id a2 = node"
      "\<And>c. c \<noteq> LLM \<Longrightarrow> adapter_of c a2 = adapter_of c a1"
    and u2: "lower p2 \<noteq> ''groq'' \<Longrightarrow> map_of (providers LLM) (lower p2) = None \<Longrightarrow>
           adapter_of LLM a2 = Some (Adapter LLM ''groq'' k2)
           \<and> Log WARNING (''Unsupported '' @ capability_name LLM
                           @ '' provider: {}, defaulting to groq for node {}'')
                 [JStr (lower p2), node] \<in> set e2"
    and m2: "\<And>pl. lower p2 \<noteq> ''groq'' \<Longrightarrow> map_of (providers LLM) (lower p2) = Some pl \<Longrightarrow>
           \<not> imported pl \<Longrightarrow>
           adapter_of LLM a2 = adapter_of LLM a1
           \<and> Log WARNING ''Plugin {} is not available'' [JStr pl] \<in> set e2"
    using initialize_provider_step [of a1 LLM sc2 p2 k2 imported] s2 f1 by metis
  obtain a3 e3 where i3: "initialize_provider imported TTS a2 = Inr (a3, e3)"
    and f3: "assistant_config a3 = cfg" "assistant_node_id a3 = node"
      "\<And>c. c \<noteq> TTS \<Longrightarrow> adapter_of c a3 = adapter_of c a2"
    and u3: "lower p3 \<noteq> ''groq'' \<Longrightarrow> map_of (providers TTS) (lower p3) = None \<Longrightarrow>
           adapter_of TTS a3 = Some (Adapter TTS ''groq'' k3)
           \<and> Log WARNING (''Unsupported '' @ capability_name TTS
                           @ '' provider: {}, defaulting to groq for node {}'')
                 [JStr (lower p3), node] \<in> set e3"
    and m3: "\<And>pl. lower p3 \<noteq> ''groq'' \<Longrightarrow> map_of (providers TTS) (lower p3) = Some pl \<Longrightarrow>
           \<not> imported pl \<Longrightarrow>
           adapter_of TTS a3 = adapter_of TTS a2
           \<and> Log WARNING ''Plugin {} is not available'' [JStr pl] \<in> set e3"
    using initialize_provider_step [of a2 TTS sc3 p3 k3 imported] s3 f2 by metis
  have res: "initialize imported a0 =
      (True, a3\<lparr>initialized := True\<rparr>,
       e1 @ e2 @ e3 @ [Log INFO ''Voice assistant initialized for node {}'' [node]])"
    using ok media_credentials_truthy [OF ok]
    by (simp add: initialize_def c0 media_credentials_ok_def initialize_stt_def
        initialize_llm_def initialize_tts_def i1 i2 i3 f3)
  have ad: "adapter_of c (a3\<lparr>initialized := True\<rparr>) = adapter_of c a3" for c
    by (cases c) simp_all
  show ?thesis
  proof (cases cap)
    case STT
    with sc p key s1 have e: "sc1 = sc" "p1 = p" "k1 = key" by simp_all
    have "adapter_of STT a3 = adapter_of STT a1" using f3(3) [of STT] f2(3) [of STT] by simp
    then show ?thesis
      using u1 m1 ng n0 [of STT] unfolding e
      by (auto simp add: res a0_def [symmetric] ad STT)
  next
    case LLM
    with sc p key s2 have e: "sc2 = sc" "p2 = p" "k2 = key" by simp_all
    have "adapter_of LLM a3 = adapter_of LLM a2" "adapter_of LLM a1 = None"
      using f3(3) [of LLM] f1(3) [of LLM] n0 [of LLM] by simp_all
    then show ?thesis
      using u2 m2 ng unfolding e
      by (auto simp add: res a0_def [symmetric] ad LLM)
  next
    case TTS
    with sc p key s3 have e: "sc3 = sc" "p3 = p" "k3 = key" by simp_all
    have "adapter_of TTS a2 = None"
      using f2(3) [of TTS] f1(3) [of TTS] n0 [of TTS] by simp
    then show ?thesis
      using u3 m3 ng unfolding e
      by (auto simp add: res a0_def [symmetric] ad TTS)
  qed
qed

theorem initialize_falls_back_and_skips_witness:
  "media_credentials_ok cfg_providers
   \<and> lower ''Whisper'' = ''whisper'' \<and> map_of (providers STT) ''whisper'' = None
   \<and> lower ''OpenAI'' = ''openai'' \<and> map_of (providers LLM) ''openai'' = Some ''openai''
   \<and> \<not> only_elevenlabs ''openai''
   \<and> fst (initialize only_elevenlabs (VoiceAssistant cfg_providers (JStr ''n1''))) = True
   \<and> adapter_of STT (fst (snd (initialize only_elevenlabs (VoiceAssistant cfg_providers (JStr ''n1'')))))
       = Some (Adapter STT ''groq'' (JStr ''k1''))
   \<and> adapter_of LLM (fst (snd (initialize only_elevenlabs (VoiceAssistant cfg_providers (JStr ''n1'')))))
       = None"
proof -
  have ok: "media_credentials_ok cfg_providers"
    by (simp add: media_credentials_ok_def required_livekit_def cfg_providers_def)
  have s1: "py_get cfg_providers (section_of STT) (JObj []) =
              Inr (JObj [(''provider'', JStr ''Whisper''), (''apiKey'', JStr ''k1'')])"
    and s2: "py_get cfg_providers (section_of LLM) (JObj []) =
              Inr (JObj [(''provider'', JStr ''OpenAI''), (''apiKey'', JStr ''k2'')])"
    and s3: "py_get cfg_providers (section_of TTS) (JObj []) =
              Inr (JObj [(''provider'', JStr ''ElevenLabs''), (''apiKey'', JStr ''k3'')])"
    by (simp_all add: cfg_providers_def)
  have wf: "\<forall>c. \<exists>sc p key. py_get cfg_providers (section_of c) (JObj []) = Inr (JObj sc)
                  \<and> py_get (JObj sc) ''provider'' (JStr ''groq'') = Inr (JStr p)
                  \<and> py_get (JObj sc) ''apiKey'' (JStr []) = Inr key"
  proof
    fix c
    show "\<exists>sc p key. py_get cfg_providers (section_of c) (JObj []) = Inr (JObj sc)
                  \<and> py_get (JObj sc) ''provider'' (JStr ''groq'') = Inr (JStr p)
                  \<and> py_get (JObj sc) ''apiKey'' (JStr []) = Inr key"
      by (cases c) (simp_all only: s1 s2 s3, simp_all)
  qed
  have l1: "lower ''Whisper'' = ''whisper''" and l2: "lower ''OpenAI'' = ''openai''"
    by (simp_all add: lower_def lower_char_def)
  have t1: "map_of (providers STT) ''whisper'' = None"
    and t2: "map_of (providers LLM) ''openai'' = Some ''openai''"
    and ni: "\<not> only_elevenlabs ''openai''"
    by (simp_all add: only_elevenlabs_def)
  have p1: "py_get (JObj [(''provider'', JStr ''Whisper''), (''apiKey'', JStr ''k1'')]) ''provider'' (JStr ''groq'') = Inr (JStr ''Whisper'')"
    "py_get (JObj [(''provider'', JStr ''Whisper''), (''apiKey'', JStr ''k1'')]) ''apiKey'' (JStr []) = Inr (JStr ''k1'')"
    "py_get (JObj [(''provider'', JStr ''OpenAI''), (''apiKey'', JStr ''k2'')]) ''provider'' (JStr ''groq'') = Inr (JStr ''OpenAI'')"
    "py_get (JObj [(''provider'', JStr ''OpenAI''), (''apiKey'', JStr ''k2'')]) ''apiKey'' (JStr []) = Inr (JStr ''k2'')"
    by simp_all
  have g: "''whisper'' \<noteq> ''groq''" "''openai'' \<noteq> ''groq''" by simp_all
  note a = initialize_falls_back_and_skips
      [OF ok wf s1 p1(1) p1(2), of only_elevenlabs "JStr ''n1''", unfolded l1, OF g(1)]
  note b = initialize_falls_back_and_skips
      [OF ok wf s2 p1(3) p1(4), of only_elevenlabs "JStr ''n1''", unfolded l2, OF g(2)]
  show ?thesis
    using a b ok l1 l2 t1 t2 ni by blast
qed

section \<open>Cleanup among other requests\<close>

text \<open>The call statement by statement, each after what the other threads did.\<close>

lemma cleanup_from_unfold:
  "cleanup_from interf life n w TestAgents =
     (let w1 = interf TestAgents w in
      cleanup_from interf life n w1
        (if map_of (user_agents w1) (KStr n) \<noteq> None then StopAgent else TestConfigs))"
  "cleanup_from interf life n w StopAgent =
     (let w1 = interf StopAgent w in
      case map_of (user_agents w1) (KStr n) of
        None \<Rightarrow> (False, logger ERROR ''Error cleaning up node {}'' [JStr n] w1)
      | Some m \<Rightarrow>
          cleanup_from interf life n
            ((fst (stop_agent life w1 m))
               \<lparr>user_agents := AList.update (KStr n) (snd (stop_agent life w1 m))
                                 (user_agents w1)\<rparr>) DelAgent)"
  "cleanup_from interf life n w DelAgent =
     (let w1 = interf DelAgent w in
      if map_of (user_agents w1) (KStr n) \<noteq> None
      then cleanup_from interf life n (w1\<lparr>user_agents := AList.delete (KStr n) (user_agents w1)\<rparr>)
             TestConfigs
      else (False, logger ERROR ''Error cleaning up node {}'' [JStr n] w1))"
  "cleanup_from interf life n w TestConfigs =
     (let w1 = interf TestConfigs w in
      cleanup_from interf life n w1
        (if map_of (user_configs w1) (KStr n) \<noteq> None then DelConfig else Finish))"
  "cleanup_from interf life n w DelConfig =
     (let w1 = interf DelConfig w in
      if map_of (user_configs w1) (KStr n) \<noteq> None
      then cleanup_from interf life n (w1\<lparr>user_configs := AList.delete (KStr n) (user_configs w1)\<rparr>)
             Finish
      else (False, logger ERROR ''Error cleaning up node {}'' [JStr n] w1))"
  "cleanup_from interf life n w Finish =
     (True, logger INFO ''Cleaned up resources for node {}'' [JStr n] (interf Finish w))"
  by (simp_all add: Let_def cleanup_raised_def split_def split: option.split)

declare cleanup_from.simps [simp del]







text \<open>
  The service started from an environment that names node \<open>n1\<close>, one cleanup
  of \<open>n1\<close> running alone, and one during whose join a second cleanup of
  \<open>n1\<close> runs to its end.
\<close>

lemma boot_n1:
  "auto_load_env_config env_n1 empty_world =
     \<lparr>user_configs = [(KStr ''n1'', load_config_from_env env_n1)],
      user_agents = [(KStr ''n1'', \<lparr>node_id = JStr ''n1'', config = load_config_from_env env_n1,
                                    agent_thread = Some 0, shutdown_event = False\<rparr>)],
      threads = [\<lparr>thread_name = JStr ''n1'', alive = True\<rparr>],
      logs = [Log INFO ''Auto-loading configuration from environment for node: {}'' [JStr ''n1''],
              Log INFO ''LiveKit agent started for node {}'' [JStr ''n1''],
              Log INFO ''Auto-started LiveKit agent for node: {}'' [JStr ''n1'']],
      clock = 0\<rparr>"
  by (simp add: auto_load_env_config_def env_n1_def getenv_def Let_def start_agent_def
      spawn_def logger_def empty_world_def UserAgentManager_def)

lemma cleanup_user_eq:
  assumes "request_node_id q = Some n" and "n \<noteq> []"
  shows "cleanup_user interf life w q =
     (if fst (cleanup_node interf life w n)
      then resp_success ''User resources cleaned up successfully'' (JObj [(''nodeId'', JStr n)])
      else resp_failure ''Failed to cleanup user resources''
             (Text ''Could not cleanup resources for nodeId: {}'' [JStr n]),
      snd (cleanup_node interf life w n))"
  using assms by (simp add: cleanup_user_def split_def)

lemma cleanup_boot_alone:
  "cleanup_node undisturbed (Some 1) (auto_load_env_config env_n1 empty_world) ''n1'' =
     (True,
      \<lparr>user_configs = [], user_agents = [],
       threads = [\<lparr>thread_name = JStr ''n1'', alive = False\<rparr>],
       logs = [Log INFO ''Auto-loading configuration from environment for node: {}'' [JStr ''n1''],
               Log INFO ''LiveKit agent started for node {}'' [JStr ''n1''],
               Log INFO ''Auto-started LiveKit agent for node: {}'' [JStr ''n1''],
               Log INFO ''Stopping LiveKit agent for node {}'' [JStr ''n1''],
               Log INFO ''Cleaned up resources for node {}'' [JStr ''n1'']],
       clock = 1\<rparr>)"
  by (simp add: boot_n1 cleanup_node_def cleanup_from_unfold undisturbed_def Let_def
      stop_agent_def is_alive_def thread_exit_def logger_def AList.update.simps AList.delete_eq)






section \<open>Health after cleanup\<close>

text \<open>
  C7: the code differs from the claim in the worker's liveness. Node \<open>n1\<close> is
  activated from the environment and \<^verbatim>\<open>health\<close> reports config and agent
  \<^verbatim>\<open>True\<close>. After \<^verbatim>\<open>DELETE /processor/cleanup-user?nodeId=n1\<close>, running
  alone, \<open>get_config\<close> returns the empty structure and \<open>health_check\<close> reports
  config \<^verbatim>\<open>False\<close>, as claimed, but it reports the agent as \<^verbatim>\<open>None\<close> (JSON
  \<^verbatim>\<open>null\<close>), not as \<^verbatim>\<open>False\<close>: the \<^verbatim>\<open>and\<close> chain stops at the manager that
  is no longer there. The same expression gives \<^verbatim>\<open>False\<close> for a node whose
  manager is kept and whose thread has ended.
\<close>

theorem health_after_cleanup_reports_null:
  "health_check (auto_load_env_config env_n1 empty_world) (query ''n1'') =
     resp_success ''Health check completed''
       (JObj [(''status'', JStr ''ok''), (''nodeId'', JStr ''n1''),
              (''services'', JObj [(''config'', JBool True), (''token'', JBool True),
                                   (''agent'', JBool True)]),
              (''config_available'', JBool True)])
   \<and> fst (cleanup_user undisturbed (Some 1) (auto_load_env_config env_n1 empty_world)
            (query ''n1'')) =
       resp_success ''User resources cleaned up successfully'' (JObj [(''nodeId'', JStr ''n1'')])
   \<and> get_config (snd (cleanup_user undisturbed (Some 1)
                         (auto_load_env_config env_n1 empty_world) (query ''n1'')))
        (query ''n1'') =
       resp_success ''Configuration retrieved successfully''
         (JObj [(''config'', JObj []), (''nodeId'', JStr ''n1'')])
   \<and> health_check (snd (cleanup_user undisturbed (Some 1)
                           (auto_load_env_config env_n1 empty_world) (query ''n1'')))
        (query ''n1'') =
       resp_success ''Health check completed''
         (JObj [(''status'', JStr ''ok''), (''nodeId'', JStr ''n1''),
                (''services'', JObj [(''config'', JBool False), (''token'', JBool True),
                                     (''agent'', JNull)]),
                (''config_available'', JBool False)])
   \<and> JNull \<noteq> JBool False
   \<and> health_check (thread_exit 0 (auto_load_env_config env_n1 empty_world)) (query ''n1'') =
       resp_success ''Health check completed''
         (JObj [(''status'', JStr ''ok''), (''nodeId'', JStr ''n1''),
                (''services'', JObj [(''config'', JBool True), (''token'', JBool True),
                                     (''agent'', JBool False)]),
                (''config_available'', JBool True)])"
proof -
  have q: "request_node_id (query ''n1'') = Some ''n1''"
    by (simp add: query_def request_node_id_def)
  have ne: "''n1'' \<noteq> []"
    by simp
  show ?thesis
    unfolding cleanup_user_eq [OF q ne] cleanup_boot_alone
    by (simp add: boot_n1 health_check_def node_health_def agent_running_def get_config_def q
        is_alive_def thread_exit_def Let_def)
qed

section \<open>One worker per node\<close>




lemma start_agent_node_id [simp]: "node_id (snd (start_agent w m)) = node_id m"
  by (simp add: start_agent_def spawn_def split: option.split)

lemma stop_agent_node_id [simp]: "node_id (snd (stop_agent life w m)) = node_id m"
  by (simp add: stop_agent_def Let_def split: option.split)

lemma stop_agent_agent_thread [simp]:
  "agent_thread (snd (stop_agent life w m)) = agent_thread m"
  by (simp add: stop_agent_def Let_def split: option.split)

lemma owned_logger [simp]: "owned k (logger l s vs w) m = owned k w m"
  by (simp add: owned_def)

lemma owned_clock [simp]: "owned k (w\<lparr>clock := c\<rparr>) m = owned k w m"
  by (simp add: owned_def)

lemma owned_shutdown_event [simp]: "owned k w (m\<lparr>shutdown_event := b\<rparr>) = owned k w m"
  by (simp add: owned_def)










lemma cleanup_step_length [simp]:
  "length (threads (fst (cleanup_step life n w pc))) = length (threads w)"
  by (cases pc) (simp_all add: cleanup_raised_def split_def split: option.split)


lemma service_step_length [simp]:
  "length (threads (current (service_step s tr))) = length (threads (current s))"
  by (cases tr) (simp_all add: split_def)

lemma service_foldl_length [simp]:
  "length (threads (current (foldl service_step s ts))) = length (threads (current s))"
  by (induction ts arbitrary: s) simp_all







end
